theory Spec2Isabelle
  imports Main "HOL-Library.Word" "HOL-Library.AList"
begin

unbundle bit_operations_syntax

section \<open>Python values used by the two scripts\<close>

text \<open>
  The scripts \<^verbatim>\<open>gdb_load_z64overlay.py\<close> (command \<^verbatim>\<open>z64ovl\<close>) and
  \<^verbatim>\<open>gdb_load_ovl.py\<close> (command \<^verbatim>\<open>ovl\<close>) are embedded as functions over
  an explicit debugger (the \<open>host\<close> record) and an explicit session state.

  Python integers are unbounded: \<open>int\<close>. Python strings are \<open>string\<close>; a character is a
  code point below 256, so the library functions below (\<open>strip\<close>, \<open>split\<close>, \<open>lower\<close>,
  the regular expressions) are the Python ones restricted to that alphabet.
  \<^verbatim>\<open>str.upper\<close> leaves that alphabet (it maps \<^verbatim>\<open>0xB5\<close> and \<^verbatim>\<open>0xFF\<close> to code points
  above 255): it is not defined here but taken from the environment, with the debugger.
\<close>

subsection \<open>Exceptions\<close>

datatype exc_kind =
    ValueError | AssertionError | AttributeError | IndexError | TypeError | NameError
  | GdbError | Exception

record error =
  kind :: exc_kind
  args :: "string list"
  exc_notes :: "string list"

definition raise_exc :: "exc_kind \<Rightarrow> string list \<Rightarrow> error" where
  "raise_exc k a = \<lparr>kind = k, args = a, exc_notes = []\<rparr>"

definition add_note :: "string \<Rightarrow> error \<Rightarrow> error" where
  "add_note n e = e\<lparr>exc_notes := exc_notes e @ [n]\<rparr>"

subsection \<open>Characters\<close>

definition dq :: string where
  "dq = [CHR 0x22]"

text \<open>\<^verbatim>\<open>str.isspace\<close>, which \<^verbatim>\<open>strip\<close> and \<^verbatim>\<open>rstrip\<close> use.\<close>

definition isspace :: "char \<Rightarrow> bool" where
  "isspace c = (c \<in> set [CHR 0x09, CHR 0x0A, CHR 0x0B, CHR 0x0C, CHR 0x0D,
                            CHR 0x1C, CHR 0x1D, CHR 0x1E, CHR 0x1F, CHR 0x20,
                            CHR 0x85, CHR 0xA0])"

text \<open>The whitespace that \<^verbatim>\<open>int(s, 16)\<close> skips at both ends of \<open>s\<close>: the separators
  \<^verbatim>\<open>0x1C\<close> to \<^verbatim>\<open>0x1F\<close> are not among it.\<close>

definition int_isspace :: "char \<Rightarrow> bool" where
  "int_isspace c = (c \<in> set [CHR 0x09, CHR 0x0A, CHR 0x0B, CHR 0x0C, CHR 0x0D, CHR 0x20,
                                CHR 0x85, CHR 0xA0])"

definition is_linebreak :: "char \<Rightarrow> bool" where
  "is_linebreak c = (c \<in> set [CHR 0x0A, CHR 0x0B, CHR 0x0C, CHR 0x0D,
                                 CHR 0x1C, CHR 0x1D, CHR 0x1E, CHR 0x85])"

definition ord :: "char \<Rightarrow> nat" where
  "ord c = of_char c"

definition chr :: "nat \<Rightarrow> char" where
  "chr n = char_of n"

definition is_digit :: "char \<Rightarrow> bool" where
  "is_digit c = (48 \<le> ord c \<and> ord c \<le> 57)"

definition is_hex :: "char \<Rightarrow> bool" where
  "is_hex c = (is_digit c \<or> (97 \<le> ord c \<and> ord c \<le> 102) \<or> (65 \<le> ord c \<and> ord c \<le> 70))"

definition hexval :: "char \<Rightarrow> nat option" where
  "hexval c =
     (if is_digit c then Some (ord c - 48)
      else if 97 \<le> ord c \<and> ord c \<le> 102 then Some (ord c - 87)
      else if 65 \<le> ord c \<and> ord c \<le> 70 then Some (ord c - 55)
      else None)"

definition lower_char :: "char \<Rightarrow> char" where
  "lower_char c =
     (if (65 \<le> ord c \<and> ord c \<le> 90) \<or> (192 \<le> ord c \<and> ord c \<le> 222 \<and> ord c \<noteq> 215)
      then chr (ord c + 32) else c)"

definition hexchar :: "nat \<Rightarrow> char" where
  "hexchar d = (if d < 10 then chr (48 + d) else chr (87 + d))"

subsection \<open>String methods\<close>

definition lower :: "string \<Rightarrow> string" where
  "lower s = map lower_char s"

definition rstrip :: "string \<Rightarrow> string" where
  "rstrip s = rev (dropWhile isspace (rev s))"

definition strip :: "string \<Rightarrow> string" where
  "strip s = rstrip (dropWhile isspace s)"

definition startswith :: "string \<Rightarrow> string \<Rightarrow> bool" where
  "startswith s p = (take (length p) s = p)"

definition removeprefix :: "string \<Rightarrow> string \<Rightarrow> string" where
  "removeprefix p s = (if startswith s p then drop (length p) s else s)"

text \<open>\<^verbatim>\<open>s.split(sep)\<close> for a non-empty separator: \<open>cur\<close> is the piece being read.\<close>

fun split_from :: "string \<Rightarrow> string \<Rightarrow> string \<Rightarrow> string list" where
  "split_from sep cur [] = [cur]"
| "split_from sep cur (c # cs) =
     (if sep \<noteq> [] \<and> startswith (c # cs) sep
      then cur # split_from sep [] (drop (length sep - 1) cs)
      else split_from sep (cur @ [c]) cs)"

definition split :: "string \<Rightarrow> string \<Rightarrow> string list" where
  "split s sep = split_from sep [] s"

text \<open>\<^verbatim>\<open>s.partition(sep)\<close>: the text before the first occurrence, the separator, the rest;
  \<open>(s, '''', '''')\<close> when the separator does not occur.\<close>

fun partition_from :: "string \<Rightarrow> string \<Rightarrow> string \<Rightarrow> (string \<times> string) option" where
  "partition_from sep cur [] = None"
| "partition_from sep cur (c # cs) =
     (if startswith (c # cs) sep then Some (cur, drop (length sep) (c # cs))
      else partition_from sep (cur @ [c]) cs)"

definition partition_str :: "string \<Rightarrow> string \<Rightarrow> string \<times> string \<times> string" where
  "partition_str s sep =
     (case partition_from sep [] s of
        Some (before, after) \<Rightarrow> (before, sep, after)
      | None \<Rightarrow> (s, [], []))"

text \<open>\<^verbatim>\<open>s.splitlines()\<close>: a final line break opens no further line.\<close>

fun splitlines_from :: "string \<Rightarrow> string \<Rightarrow> string list" where
  "splitlines_from cur [] = (if cur = [] then [] else [cur])"
| "splitlines_from cur [c] =
     (if is_linebreak c then [cur] else [cur @ [c]])"
| "splitlines_from cur (c # d # cs) =
     (if c = CHR 0x0D \<and> d = CHR 0x0A then cur # splitlines_from [] cs
      else if is_linebreak c then cur # splitlines_from [] (d # cs)
      else splitlines_from (cur @ [c]) (d # cs))"

definition splitlines :: "string \<Rightarrow> string list" where
  "splitlines s = splitlines_from [] s"

subsection \<open>Numbers and text\<close>

text \<open>\<^verbatim>\<open>int(s, 16)\<close>: surrounding whitespace, a sign, a \<^verbatim>\<open>0x\<close> prefix and single
  underscores between digits are accepted; \<open>None\<close> stands for the \<^verbatim>\<open>ValueError\<close>.\<close>

definition int_strip :: "string \<Rightarrow> string" where
  "int_strip s = rev (dropWhile int_isspace (rev (dropWhile int_isspace s)))"

fun hex_digits :: "int \<Rightarrow> string \<Rightarrow> int option" where
  "hex_digits acc [] = Some acc"
| "hex_digits acc (c # cs) =
     (if c = CHR ''_'' then
        (case cs of
           [] \<Rightarrow> None
         | d # ds \<Rightarrow>
             (case hexval d of None \<Rightarrow> None | Some v \<Rightarrow> hex_digits (16 * acc + int v) ds))
      else (case hexval c of None \<Rightarrow> None | Some v \<Rightarrow> hex_digits (16 * acc + int v) cs))"

definition hex_literal :: "string \<Rightarrow> int option" where
  "hex_literal s =
     (let body = (case s of
                    c0 # cx # r \<Rightarrow>
                      if c0 = CHR ''0'' \<and> (cx = CHR ''x'' \<or> cx = CHR ''X'')
                      then (case r of u # r' \<Rightarrow> if u = CHR ''_'' then r' else r | [] \<Rightarrow> r)
                      else s
                  | _ \<Rightarrow> s)
      in case body of
           [] \<Rightarrow> None
         | c # _ \<Rightarrow> if c = CHR ''_'' then None else hex_digits 0 body)"

definition int_base16 :: "string \<Rightarrow> int option" where
  "int_base16 s =
     (case int_strip s of
        [] \<Rightarrow> None
      | c # r \<Rightarrow>
          if c = CHR ''-'' then map_option uminus (hex_literal r)
          else if c = CHR ''+'' then hex_literal r
          else hex_literal (c # r))"

text \<open>\<^verbatim>\<open>int(s)\<close> on a string of decimal digits (the third group of the symbol pattern).\<close>

definition dec_digits :: "string \<Rightarrow> int" where
  "dec_digits s = foldl (\<lambda>acc c. 10 * acc + int (ord c - 48)) 0 s"

function hexstr :: "int \<Rightarrow> string" where
  "hexstr n = (if n < 16 then [hexchar (nat n)] else hexstr (n div 16) @ [hexchar (nat (n mod 16))])"
  by pat_completeness auto
termination
  by (relation "measure nat") auto

declare hexstr.simps [simp del]

text \<open>\<^verbatim>\<open>hex(x)\<close> and the format \<^verbatim>\<open>{x:#x}\<close>.\<close>

definition hex :: "int \<Rightarrow> string" where
  "hex x = (if x < 0 then ''-0x'' @ hexstr (- x) else ''0x'' @ hexstr x)"

function decstr :: "int \<Rightarrow> string" where
  "decstr n = (if n < 10 then [hexchar (nat n)] else decstr (n div 10) @ [hexchar (nat (n mod 10))])"
  by pat_completeness auto
termination
  by (relation "measure nat") auto

declare decstr.simps [simp del]

text \<open>\<^verbatim>\<open>str(x)\<close> of an integer.\<close>

definition str_int :: "int \<Rightarrow> string" where
  "str_int x = (if x < 0 then ''-'' @ decstr (- x) else decstr x)"

text \<open>\<^verbatim>\<open>repr(s)\<close> of a string, as the format \<^verbatim>\<open>{name=}\<close> prints it.\<close>

definition repr_char :: "char \<Rightarrow> char \<Rightarrow> string" where
  "repr_char q c =
     (if c = CHR 0x5C then [CHR 0x5C, CHR 0x5C]
      else if c = q then [CHR 0x5C, q]
      else if c = CHR 0x09 then [CHR 0x5C, CHR ''t'']
      else if c = CHR 0x0A then [CHR 0x5C, CHR ''n'']
      else if c = CHR 0x0D then [CHR 0x5C, CHR ''r'']
      else if ord c < 32 \<or> (127 \<le> ord c \<and> ord c \<le> 160) \<or> ord c = 173
        then [CHR 0x5C, CHR ''x'', hexchar (ord c div 16), hexchar (ord c mod 16)]
      else [c])"

definition repr :: "string \<Rightarrow> string" where
  "repr s =
     (let q = (if CHR 0x27 \<in> set s \<and> CHR 0x22 \<notin> set s then CHR 0x22 else CHR 0x27)
      in q # concat (map (repr_char q) s) @ [q])"

section \<open>The debugger\<close>

text \<open>
  Every operation of the scripts is a call into gdb. The record below gives the answers of
  the debugger during one command or breakpoint callback: each field is one call the
  scripts make, \<open>Inl\<close> when the call raises. \<open>'v\<close> is the type of gdb values (overlay
  tables).
  \<^item> \<open>execute cmd\<close>: \<^verbatim>\<open>gdb.execute(cmd, False, True)\<close>, the text the command prints;
  \<^item> \<open>format_voidp a\<close>:
    \<^verbatim>\<open>gdb.Value(a).cast(TYPE_VOIDP).format_string(raw=True, symbols=True)\<close>;
  \<^item> \<open>symtab_filename n\<close>: \<^verbatim>\<open>gdb.lookup_symbol(n)[0].symtab.filename\<close>;
  \<^item> \<open>progspace_filename\<close>: \<^verbatim>\<open>gdb.current_progspace().filename\<close>;
  \<^item> \<open>object_path rom c\<close>: the text of
    \<^verbatim>\<open>(Path(rom).parent / c).with_suffix(".o")\<close>, and \<open>stem p\<close> the stem of a path
    (pathlib, not part of the scripts);
  \<^item> \<open>global_value n\<close>: \<^verbatim>\<open>gdb.lookup_global_symbol(n).value()\<close>;
  \<^item> \<open>table_u32 t i f\<close>: \<^verbatim>\<open>t[i][f].cast(TYPE_U32)\<close>;
  \<^item> \<open>enum_value n\<close>: \<^verbatim>\<open>gdb.lookup_symbol(n)[0].value().cast(TYPE_U32)\<close>;
  \<^item> \<open>read_var n\<close>: \<^verbatim>\<open>gdb.selected_frame().read_var(n).cast(TYPE_U32)\<close>, and
    \<open>read_var_field n f\<close> the same for \<^verbatim>\<open>read_var(n)[f]\<close>;
  \<^item> \<open>str_upper a\<close>: \<^verbatim>\<open>a.upper()\<close>, the case mapping of Python's strings (not part of
    the scripts, and not of the debugger either: it is kept here with the rest of the
    environment).
\<close>

record 'v host =
  execute :: "string \<Rightarrow> error + string"
  format_voidp :: "int \<Rightarrow> error + string"
  symtab_filename :: "string \<Rightarrow> error + string"
  progspace_filename :: "error + string"
  object_path :: "string \<Rightarrow> string \<Rightarrow> error + string"
  stem :: "string \<Rightarrow> string"
  global_value :: "string \<Rightarrow> error + 'v"
  table_u32 :: "'v \<Rightarrow> 32 word \<Rightarrow> string \<Rightarrow> error + 32 word"
  enum_value :: "string \<Rightarrow> error + 32 word"
  read_var :: "string \<Rightarrow> error + 32 word"
  read_var_field :: "string \<Rightarrow> string \<Rightarrow> error + 32 word"
  str_upper :: "string \<Rightarrow> string"

text \<open>
  The state of a debugging session: the registry \<^verbatim>\<open>loaded_z64overlay_objects\<close> (a dict,
  kept as the list of its items in insertion order), the \<^verbatim>\<open>enabled\<close> flag of
  \<^verbatim>\<open>bp_load\<close>, the symbol-file commands sent to the debugger so far
  (\<^verbatim>\<open>add-symbol-file\<close>, \<^verbatim>\<open>remove-symbol-file\<close>), and the lines printed so far.
\<close>

record session =
  loaded_z64overlay_objects :: "(int \<times> string) list"
  bp_load_enabled :: bool
  host_calls :: "string list"
  printed :: "string list"

definition print :: "string \<Rightarrow> session \<Rightarrow> session" where
  "print line s = s\<lparr>printed := printed s @ [line]\<rparr>"

definition host_call :: "string \<Rightarrow> session \<Rightarrow> session" where
  "host_call cmd s = s\<lparr>host_calls := host_calls s @ [cmd]\<rparr>"

section \<open>The script \<^verbatim>\<open>gdb_load_z64overlay.py\<close>\<close>

datatype SectionType = TEXT | DATA | RODATA | BSS

fun section_name :: "SectionType \<Rightarrow> string" where
  "section_name TEXT = ''.text''"
| "section_name DATA = ''.data''"
| "section_name RODATA = ''.rodata''"
| "section_name BSS = ''.bss''"

fun linker_script_name :: "SectionType \<Rightarrow> string" where
  "linker_script_name TEXT = ''Text''"
| "linker_script_name DATA = ''Data''"
| "linker_script_name RODATA = ''RoData''"
| "linker_script_name BSS = ''Bss''"

definition printf_cmd :: "string \<Rightarrow> string" where
  "printf_cmd name = ''printf '' @ dq @ ''%x'' @ dq @ '', &'' @ name"

definition get_sym_addr_from_name :: "'v host \<Rightarrow> string \<Rightarrow> error + int" where
  "get_sym_addr_from_name h name =
     (case execute h (printf_cmd name) of
        Inl e \<Rightarrow> Inl e
      | Inr printf_out \<Rightarrow>
          (case int_base16 printf_out of
             Some n \<Rightarrow> Inr n
           | None \<Rightarrow>
               Inl (raise_exc ValueError
                 [''Unexpected result for `'' @ printf_cmd name @ ''`'', printf_out])))"

text \<open>
  The prefix \<^verbatim>\<open>0x[0-9a-f]+\<close> of both patterns, letters in either case: the matched text
  and the rest. The digits are taken greedily; the patterns go on with a space or the end
  of the text, so no shorter run of digits can match.
\<close>

definition match_0x_hex :: "string \<Rightarrow> (string \<times> string) option" where
  "match_0x_hex s =
     (case s of
        c0 # cx # r \<Rightarrow>
          if c0 = CHR ''0'' \<and> (cx = CHR ''x'' \<or> cx = CHR ''X'') \<and> takeWhile is_hex r \<noteq> []
          then Some (c0 # cx # takeWhile is_hex r, dropWhile is_hex r)
          else None
      | _ \<Rightarrow> None)"

text \<open>
  \<^verbatim>\<open>VALUE_SYM_FMT_PATTERN.fullmatch(s)\<close>, the pattern
  \<^verbatim>\<open>(0x[0-9a-f]+)(?: <([^+]+)(?:\+(\d+))?>)?\<close>: the three groups, the last two
  optional.
\<close>

definition VALUE_SYM_FMT_PATTERN :: "string \<Rightarrow> (string \<times> string option \<times> string option) option" where
  "VALUE_SYM_FMT_PATTERN s =
     (case match_0x_hex s of
        None \<Rightarrow> None
      | Some (addr_str, r) \<Rightarrow>
          if r = [] then Some (addr_str, None, None)
          else if startswith r '' <'' \<and> drop 2 r \<noteq> [] \<and> last r = CHR ''>'' then
            (let body = butlast (drop 2 r);
                 sym_name = takeWhile (\<lambda>c. c \<noteq> CHR ''+'') body;
                 rest = dropWhile (\<lambda>c. c \<noteq> CHR ''+'') body
             in if sym_name = [] then None
                else if rest = [] then Some (addr_str, Some sym_name, None)
                else if tl rest \<noteq> [] \<and> list_all is_digit (tl rest)
                  then Some (addr_str, Some sym_name, Some (tl rest))
                else None)
          else None)"

definition get_sym_name_from_addr :: "'v host \<Rightarrow> int \<Rightarrow> error + string" where
  "get_sym_name_from_addr h addr =
     (case format_voidp h addr of
        Inl e \<Rightarrow> Inl e
      | Inr s \<Rightarrow>
          (case VALUE_SYM_FMT_PATTERN s of
             None \<Rightarrow>
               Inl (raise_exc ValueError [''Unexpected result for getting name of '' @ hex addr, s])
           | Some (addr_str, sym_name, offset_str) \<Rightarrow>
               if lower addr_str \<noteq> hex addr then
                 Inl (raise_exc ValueError
                   [''Unexpected result (different addr) for getting name of '' @ hex addr, s])
               else
                 (case sym_name of
                    None \<Rightarrow> Inl (raise_exc ValueError [''No symbol found for '' @ hex addr])
                  | Some name \<Rightarrow>
                      (case offset_str of
                         Some off \<Rightarrow>
                           if dec_digits off = 0 then Inl (raise_exc AssertionError [s])
                           else Inl (raise_exc ValueError
                             [''No symbol found for '' @ hex addr @ '' (but the addr is '' @
                              name @ ''+'' @ off @ '')''])
                       | None \<Rightarrow> Inr name))))"

datatype sym = SymName string | SymAddr int

text \<open>The argument of \<^verbatim>\<open>get_sym_section\<close> is a name or an address; an address is
  written with \<^verbatim>\<open>{sym:#x}\<close>.\<close>

fun sym_text :: "sym \<Rightarrow> string" where
  "sym_text (SymAddr n) = hex n"
| "sym_text (SymName name) = name"

definition get_sym_section :: "'v host \<Rightarrow> sym \<Rightarrow> error + string" where
  "get_sym_section h sym0 =
     (let sym = sym_text sym0 in
      case execute h (''info symbol '' @ sym) of
        Inl e \<Rightarrow> Inl e
      | Inr info_sym \<Rightarrow>
          (let parts = split info_sym ''in section '' in
           case parts of
             [p0, p1] \<Rightarrow>
               (case split p1 '' of '' of
                  [] \<Rightarrow> Inl (raise_exc IndexError [''list index out of range''])
                | q0 # _ \<Rightarrow> Inr (strip q0))
           | _ \<Rightarrow>
               Inl (raise_exc ValueError
                 [''Unexpected result for `info symbol '' @ sym @ ''`'', info_sym])))"

text \<open>
  \<^verbatim>\<open>INFO_FILE_LINE_PATTERN.fullmatch(line)\<close>, the pattern
  \<^verbatim>\<open>(0x[0-9a-f]+) - (0x[0-9a-f]+) is (.*)\<close>, letters in either case; the dot matches
  every character but the newline.
\<close>

definition INFO_FILE_LINE_PATTERN :: "string \<Rightarrow> (string \<times> string \<times> string) option" where
  "INFO_FILE_LINE_PATTERN line =
     (case match_0x_hex line of
        None \<Rightarrow> None
      | Some (start_str, r1) \<Rightarrow>
          if startswith r1 '' - '' then
            (case match_0x_hex (drop 3 r1) of
               None \<Rightarrow> None
             | Some (end_str, r2) \<Rightarrow>
                 if startswith (lower r2) '' is '' \<and> CHR 0x0A \<notin> set (drop 4 r2)
                 then Some (start_str, end_str, drop 4 r2)
                 else None)
          else None)"

text \<open>The loop of \<^verbatim>\<open>get_section_by_addr\<close> over the lines, and the raise after it.\<close>

fun section_in_lines :: "string list \<Rightarrow> int \<Rightarrow> error + string" where
  "section_in_lines [] addr =
     Inl (raise_exc ValueError [''No section found for address '' @ hex addr])"
| "section_in_lines (line # lines) addr =
     (case INFO_FILE_LINE_PATTERN line of
        None \<Rightarrow> section_in_lines lines addr
      | Some (start_str, end_str, section) \<Rightarrow>
          (case int_base16 start_str of
             None \<Rightarrow> Inl (raise_exc ValueError [''invalid literal for int() with base 16'', start_str])
           | Some start0 \<Rightarrow>
               (case int_base16 end_str of
                  None \<Rightarrow> Inl (raise_exc ValueError [''invalid literal for int() with base 16'', end_str])
                | Some end0 \<Rightarrow>
                    (let start = start0 AND 0xFFFFFFFF;
                         end = end0 AND 0xFFFFFFFF
                     in if start \<le> addr \<and> addr < end then Inr section
                        else section_in_lines lines addr))))"

definition get_section_by_addr :: "'v host \<Rightarrow> int \<Rightarrow> error + string" where
  "get_section_by_addr h addr =
     (case execute h ''info file'' of
        Inl e \<Rightarrow> Inl e
      | Inr info_file \<Rightarrow> section_in_lines (splitlines info_file) addr)"

definition section_start_name :: "string \<Rightarrow> string \<Rightarrow> string" where
  "section_start_name ovl_name sec_name = ''_'' @ ovl_name @ ''Segment'' @ sec_name @ ''Start''"

definition get_section_address :: "'v host \<Rightarrow> string \<Rightarrow> string \<Rightarrow> error + int" where
  "get_section_address h ovl_name sec_name =
     (case get_sym_addr_from_name h (section_start_name ovl_name sec_name) of
        Inr a \<Rightarrow> Inr a
      | Inl e \<Rightarrow>
          Inl (add_note (''section_start_name='' @ repr (section_start_name ovl_name sec_name)) e))"

text \<open>
  The dict comprehension of \<^verbatim>\<open>load_z64overlay_object\<close> that resolves the four section
  starts, in the order of \<^verbatim>\<open>SectionType\<close>; the first failure is raised.
\<close>

definition resolve_ovl_addresses :: "(string \<Rightarrow> string \<Rightarrow> error + int) \<Rightarrow> string \<Rightarrow> error + (SectionType \<Rightarrow> int)" where
  "resolve_ovl_addresses gsa ovl_sec_name =
     (case gsa ovl_sec_name (linker_script_name TEXT) of Inl e \<Rightarrow> Inl e | Inr t \<Rightarrow>
      case gsa ovl_sec_name (linker_script_name DATA) of Inl e \<Rightarrow> Inl e | Inr d \<Rightarrow>
      case gsa ovl_sec_name (linker_script_name RODATA) of Inl e \<Rightarrow> Inl e | Inr r \<Rightarrow>
      case gsa ovl_sec_name (linker_script_name BSS) of Inl e \<Rightarrow> Inl e | Inr b \<Rightarrow>
        Inr (\<lambda>sec. case sec of TEXT \<Rightarrow> t | DATA \<Rightarrow> d | RODATA \<Rightarrow> r | BSS \<Rightarrow> b))"

text \<open>Lines 164 to 171: the path of the object file of the first symbol of the overlay.\<close>

definition target_object_path :: "'v host \<Rightarrow> int \<Rightarrow> error + string" where
  "target_object_path h vram_address =
     (case get_sym_name_from_addr h vram_address of Inl e \<Rightarrow> Inl e | Inr sym_name \<Rightarrow>
      case symtab_filename h sym_name of Inl e \<Rightarrow> Inl e | Inr target_filename_c \<Rightarrow>
      case progspace_filename h of Inl e \<Rightarrow> Inl e | Inr rom_elf_filename \<Rightarrow>
        object_path h rom_elf_filename target_filename_c)"

definition add_symbol_file_cmd :: "string \<Rightarrow> (SectionType \<Rightarrow> int) \<Rightarrow> string" where
  "add_symbol_file_cmd obj ovl_offsets =
     ''add-symbol-file -readnow '' @ obj @ '' -o 0xFF000000'' @
     concat (map (\<lambda>sec. '' -s '' @ section_name sec @ '' '' @ hex (ovl_offsets sec))
               [TEXT, DATA, RODATA, BSS])"

type_synonym outcome = "(error + unit) \<times> session"

definition load_z64overlay_object :: "'v host \<Rightarrow> session \<Rightarrow> int \<Rightarrow> int \<Rightarrow> outcome" where
  "load_z64overlay_object h s alloc_address vram_address =
     (if alloc_address \<in> set (map fst (loaded_z64overlay_objects s))
      then (Inl (raise_exc Exception [''Already loaded'']), s)
      else
        (let (found, s1) =
               (case get_sym_section h (SymAddr vram_address) of
                  Inr n \<Rightarrow> (Inr n, s)
                | Inl e \<Rightarrow>
                    if kind e = ValueError
                    then (get_section_by_addr h vram_address,
                          print ''get_sym_section() failed, trying get_section_by_addr()'' s)
                    else (Inl e, s))
         in case found of Inl e \<Rightarrow> (Inl e, s1) | Inr ovl_sec_name0 \<Rightarrow>
            (let ovl_sec_name = removeprefix ''..'' ovl_sec_name0 in
             case resolve_ovl_addresses (get_section_address h) ovl_sec_name of
               Inl e \<Rightarrow> (Inl e, s1)
             | Inr ovl_addresses \<Rightarrow>
                 (let ovl_offsets = (\<lambda>sec. alloc_address + (ovl_addresses sec - vram_address)) in
                  case target_object_path h vram_address of
                    Inl e \<Rightarrow> (Inl e, s1)
                  | Inr target_filename_o_p \<Rightarrow>
                      (let s2 = s1\<lparr>loaded_z64overlay_objects :=
                                     AList.update alloc_address target_filename_o_p
                                       (loaded_z64overlay_objects s1)\<rparr>;
                           s3 = print (''Reading '' @ stem h target_filename_o_p @ ''...'') s2;
                           cmd = add_symbol_file_cmd target_filename_o_p ovl_offsets;
                           s4 = host_call cmd s3
                       in case execute h cmd of
                            Inl e \<Rightarrow> (Inl e, s4)
                          | Inr _ \<Rightarrow> (Inr (), print ''Complete.'' s4))))))"

definition unload_z64overlay_object :: "'v host \<Rightarrow> session \<Rightarrow> int \<Rightarrow> outcome" where
  "unload_z64overlay_object h s alloc_address =
     (case map_of (loaded_z64overlay_objects s) alloc_address of
        None \<Rightarrow> (Inr (), s)
      | Some obj_p \<Rightarrow>
          (let s1 = s\<lparr>loaded_z64overlay_objects :=
                        AList.delete alloc_address (loaded_z64overlay_objects s)\<rparr>;
               s2 = print (''Unloading overlay: '' @ stem h obj_p @ '' ('' @
                           str_int (int (length (loaded_z64overlay_objects s1))) @ '' left)'') s1;
               cmd = ''remove-symbol-file '' @ obj_p;
               s3 = host_call cmd s2
           in case execute h cmd of
                Inl e \<Rightarrow> (Inl e, s3)
              | Inr _ \<Rightarrow> (Inr (), s3)))"

definition load_z64overlay_object_from_table :: "'v host \<Rightarrow> session \<Rightarrow> 'v \<Rightarrow> 32 word \<Rightarrow> outcome" where
  "load_z64overlay_object_from_table h s overlay_table index =
     (case table_u32 h overlay_table index ''loadedRamAddr'' of
        Inl e \<Rightarrow> (Inl e, s)
      | Inr a \<Rightarrow>
          (let alloc_address = uint a in
           if alloc_address = 0
           then (Inr (), print ''ERROR: Requested overlay is not currently loaded'' s)
           else
             (case table_u32 h overlay_table index ''vramStart'' of
                Inl e \<Rightarrow> (Inl e, s)
              | Inr v \<Rightarrow> load_z64overlay_object h s alloc_address (uint v))))"

text \<open>\<^verbatim>\<open>re.findall(r"^([^_]+)", arg)\<close>: the characters before the first underscore, when
  there is at least one.\<close>

definition findall_type :: "string \<Rightarrow> string list" where
  "findall_type arg =
     (if takeWhile (\<lambda>c. c \<noteq> CHR ''_'') arg = [] then []
      else [takeWhile (\<lambda>c. c \<noteq> CHR ''_'') arg])"

definition LoadZ64OvlCmd_invoke :: "'v host \<Rightarrow> session \<Rightarrow> string \<Rightarrow> outcome" where
  "LoadZ64OvlCmd_invoke h s arg0 =
     (let arg = str_upper h arg0 in
      if arg = ''AUTO ON''
      then (Inr (), print ''z64 overlays will be automatically loaded'' (s\<lparr>bp_load_enabled := True\<rparr>))
      else if arg = ''AUTO OFF''
      then (Inr (), print ''z64 overlays will NOT be automatically loaded'' (s\<lparr>bp_load_enabled := False\<rparr>))
      else if arg \<in> set [''PAUSE'', ''KALEIDO'', ''KALEIDO_SCOPE''] then
        (case global_value h ''gKaleidoMgrOverlayTable'' of
           Inl e \<Rightarrow> (Inl e, s)
         | Inr table \<Rightarrow> load_z64overlay_object_from_table h s table 0)
      else if arg = ''ACTOR_PLAYER'' then
        (case global_value h ''gKaleidoMgrOverlayTable'' of
           Inl e \<Rightarrow> (Inl e, s)
         | Inr table \<Rightarrow> load_z64overlay_object_from_table h s table 1)
      else
        (case findall_type arg of
           [] \<Rightarrow> (Inl (raise_exc IndexError [''list index out of range'']), s)
         | ovl_type # _ \<Rightarrow>
             (case (if ovl_type = ''GAMESTATE'' then Some (global_value h ''gGameStateOverlayTable'')
                    else if ovl_type = ''ACTOR'' then Some (global_value h ''gActorOverlayTable'')
                    else if ovl_type = ''EFFECT'' then Some (global_value h ''gEffectSsOverlayTable'')
                    else None) of
                None \<Rightarrow> (Inr (), print ''ERROR: Type of enum provided is not supported'' s)
              | Some (Inl e) \<Rightarrow> (Inl e, s)
              | Some (Inr table) \<Rightarrow>
                  (case enum_value h arg of
                     Inl _ \<Rightarrow> (Inr (), print ''ERROR: Provided enum value could not be found in the elf'' s)
                   | Inr index \<Rightarrow> load_z64overlay_object_from_table h s table index))))"

text \<open>The \<^verbatim>\<open>stop\<close> methods of the three breakpoint classes; each returns \<^verbatim>\<open>False\<close>.\<close>

definition BreakpointOverlayLoad_stop :: "'v host \<Rightarrow> session \<Rightarrow> outcome" where
  "BreakpointOverlayLoad_stop h s =
     (case read_var h ''allocatedRamAddr'' of Inl e \<Rightarrow> (Inl e, s) | Inr a \<Rightarrow>
      case read_var h ''vramStart'' of Inl e \<Rightarrow> (Inl e, s) | Inr v \<Rightarrow>
        load_z64overlay_object h s (uint a) (uint v))"

definition BreakpointFree_stop :: "'v host \<Rightarrow> session \<Rightarrow> outcome" where
  "BreakpointFree_stop h s =
     (case read_var h ''ptr'' of Inl e \<Rightarrow> (Inl e, s) | Inr ptr \<Rightarrow>
        unload_z64overlay_object h s (uint ptr))"

definition BreakpointKaleidoFree_stop :: "'v host \<Rightarrow> session \<Rightarrow> outcome" where
  "BreakpointKaleidoFree_stop h s =
     (case read_var_field h ''ovl'' ''loadedRamAddr'' of Inl e \<Rightarrow> (Inl e, s) | Inr ptr \<Rightarrow>
        unload_z64overlay_object h s (uint ptr))"

section \<open>The script \<^verbatim>\<open>gdb_load_ovl.py\<close>\<close>

text \<open>
  \<^verbatim>\<open>AddOverlaySymbols\<close> uses two global names that \<^verbatim>\<open>gdb_load_ovl.py\<close> does not
  define.
  \<^item> \<^verbatim>\<open>get_section_address\<close> (line 30). gdb runs every script it sources in the one
    namespace of its Python interpreter, so the name is bound when another script has
    defined it, as \<^verbatim>\<open>gdb_load_z64overlay.py\<close> does. The parameter \<open>gsa\<close> is the binding
    of the name: \<open>None\<close> when there is none (the script sourced alone), and the call
    raises \<^verbatim>\<open>NameError\<close>.
  \<^item> \<^verbatim>\<open>obj_address_map\<close> (line 44). No script of the repository defines it: the
    statement raises \<^verbatim>\<open>NameError\<close>, and lines 45 to 53 (the print and the
    \<^verbatim>\<open>add-symbol-file\<close> command) are never reached.
\<close>

definition GetAllocAddress :: "'v host \<Rightarrow> 'v \<Rightarrow> 32 word \<Rightarrow> error + int" where
  "GetAllocAddress h table index =
     (case table_u32 h table index ''loadedRamAddr'' of Inl e \<Rightarrow> Inl e | Inr a \<Rightarrow> Inr (uint a))"

definition name_error :: "string \<Rightarrow> error" where
  "name_error name = raise_exc NameError [''name '' @ [CHR 0x27] @ name @ [CHR 0x27] @ '' is not defined'']"

definition AddOverlaySymbols :: "(string \<Rightarrow> string \<Rightarrow> error + int) option \<Rightarrow> 'v host \<Rightarrow> session \<Rightarrow> int \<Rightarrow> outcome" where
  "AddOverlaySymbols gsa h s alloc_address =
     (if alloc_address = 0
      then (Inr (), print ''ERROR: Requested overlay is not currently loaded'' s)
      else
        (let s1 = print (''Loading symbols for actor at  '' @ str_int alloc_address) s in
         case execute h ''info symbol vramStart'' of Inl e \<Rightarrow> (Inl e, s1) | Inr out1 \<Rightarrow>
         (let target_func_name = rstrip (fst (partition_str out1 '' '')) in
          case execute h (''info sym '' @ target_func_name) of Inl e \<Rightarrow> (Inl e, s1) | Inr out2 \<Rightarrow>
          (let ovl_sec_name =
                 rstrip (fst (partition_str (snd (snd (partition_str out2 ''section ..''))) '' ''))
           in
           case gsa of
             None \<Rightarrow> (Inl (name_error ''get_section_address''), s1)
           | Some bound_function \<Rightarrow>
           (case bound_function ovl_sec_name ''Text'' of Inl e \<Rightarrow> (Inl e, s1) | Inr ovl_address_text \<Rightarrow>
            case bound_function ovl_sec_name ''Data'' of Inl e \<Rightarrow> (Inl e, s1) | Inr ovl_address_data \<Rightarrow>
            case bound_function ovl_sec_name ''RoData'' of Inl e \<Rightarrow> (Inl e, s1) | Inr ovl_address_rodata \<Rightarrow>
            case bound_function ovl_sec_name ''Bss'' of Inl e \<Rightarrow> (Inl e, s1) | Inr ovl_address_bss \<Rightarrow>
            (let ovl_offset_text = alloc_address;
                 ovl_offset_data = alloc_address + (ovl_address_data - ovl_address_text);
                 ovl_offset_rodata = alloc_address + (ovl_address_rodata - ovl_address_text);
                 ovl_offset_bss = alloc_address + (ovl_address_bss - ovl_address_text)
             in
             case symtab_filename h target_func_name of Inl e \<Rightarrow> (Inl e, s1) | Inr target_filename \<Rightarrow>
             (let obj_name = ''build/'' @ butlast target_filename @ ''o''
              in (Inl (name_error ''obj_address_map''), s1))))))))"

definition LoadOvlCmd_invoke :: "(string \<Rightarrow> string \<Rightarrow> error + int) option \<Rightarrow> 'v host \<Rightarrow> session \<Rightarrow> string \<Rightarrow> outcome" where
  "LoadOvlCmd_invoke gsa h s arg0 =
     (let arg = str_upper h arg0 in
      if arg = ''PAUSE'' \<or> arg = ''KALEIDO'' \<or> arg = ''KALEIDO_SCOPE'' then
        (case global_value h ''gKaleidoMgrOverlayTable'' of Inl e \<Rightarrow> (Inl e, s) | Inr table \<Rightarrow>
         case GetAllocAddress h table 0 of Inl e \<Rightarrow> (Inl e, s) | Inr a \<Rightarrow>
           AddOverlaySymbols gsa h s a)
      else if arg = ''ACTOR_PLAYER'' then
        (case global_value h ''gKaleidoMgrOverlayTable'' of Inl e \<Rightarrow> (Inl e, s) | Inr table \<Rightarrow>
         case GetAllocAddress h table 1 of Inl e \<Rightarrow> (Inl e, s) | Inr a \<Rightarrow>
           AddOverlaySymbols gsa h s a)
      else
        (case enum_value h arg of
           Inl _ \<Rightarrow> (Inr (), print ''ERROR: Provided enum value could not be found in the elf'' s)
         | Inr index \<Rightarrow>
             (case findall_type arg of
                [] \<Rightarrow> (Inl (raise_exc IndexError [''list index out of range'']), s)
              | ovl_type # _ \<Rightarrow>
                  (case (if ovl_type = ''GAMESTATE'' then Some (global_value h ''gGameStateOverlayTable'')
                         else if ovl_type = ''ACTOR'' then Some (global_value h ''gActorOverlayTable'')
                         else if ovl_type = ''EFFECT'' then Some (global_value h ''gEffectSsOverlayTable'')
                         else None) of
                     None \<Rightarrow> (Inl (raise_exc Exception [''Type of enum provided is not supported'']), s)
                   | Some (Inl e) \<Rightarrow> (Inl e, s)
                   | Some (Inr table) \<Rightarrow>
                       (case GetAllocAddress h table index of
                          Inl e \<Rightarrow> (Inl e, s)
                        | Inr a \<Rightarrow> AddOverlaySymbols gsa h s a)))))"

section \<open>Notions used to state the properties\<close>

text \<open>
  The range that a line of \<^verbatim>\<open>info file\<close> lists, as the loop of
  \<^verbatim>\<open>get_section_by_addr\<close> reads it (pattern, \<^verbatim>\<open>int(..., 16)\<close>, low 32 bits), and
  whether an address lies in it.
\<close>

definition line_range :: "string \<Rightarrow> (int \<times> int \<times> string) option" where
  "line_range line =
     (case INFO_FILE_LINE_PATTERN line of
        None \<Rightarrow> None
      | Some (start_str, end_str, section) \<Rightarrow>
          (case int_base16 start_str of
             None \<Rightarrow> None
           | Some start \<Rightarrow>
               (case int_base16 end_str of
                  None \<Rightarrow> None
                | Some end \<Rightarrow> Some (start AND 0xFFFFFFFF, end AND 0xFFFFFFFF, section))))"

definition line_holds :: "string \<Rightarrow> int \<Rightarrow> bool" where
  "line_holds line addr =
     (case line_range line of
        None \<Rightarrow> False
      | Some (start, end, _) \<Rightarrow> start \<le> addr \<and> addr < end)"

text \<open>The session when the scripts have just been loaded.\<close>

definition initial_session :: session where
  "initial_session =
     \<lparr>loaded_z64overlay_objects = [], bp_load_enabled = False,
      host_calls = [], printed = []\<rparr>"

subsection \<open>Concrete debuggers\<close>

text \<open>A case mapping that agrees with \<^verbatim>\<open>str.upper\<close> on ASCII text, the only text that
  the examples give to it.\<close>

definition ascii_upper :: "string \<Rightarrow> string" where
  "ascii_upper a = map (\<lambda>c. if 97 \<le> ord c \<and> ord c \<le> 122 then chr (ord c - 32) else c) a"

definition gdb_error :: error where
  "gdb_error = raise_exc GdbError [''No symbol in current context.'']"

definition daiku_info_symbol :: string where
  "daiku_info_symbol =
     ''EnDaiku_Init in section ..ovl_En_Daiku of /oot/build/oot.elf'' @ [CHR 0x0A]"

definition daiku_info_file :: string where
  "daiku_info_file =
     ''Local exec file:'' @ [CHR 0x0A] @
     ''0x00000000 - 0x00001060 is ..makerom'' @ [CHR 0x0A] @
     ''0x00001060 - 0x00002000 is ..boot'' @ [CHR 0x0A] @
     ''0xffffffff80000460 - 0xffffffff80010aa0 is ..code'' @ [CHR 0x0A]"

text \<open>
  A debugger stopped in a game that has the actor overlay \<^verbatim>\<open>ovl_En_Daiku\<close> (linked at
  \<^verbatim>\<open>0x80a00000\<close>) loaded at \<^verbatim>\<open>0x80100000\<close>. A table is named by its symbol. The first
  argument is the answer to \<^verbatim>\<open>printf "%x", &_ovl_En_DaikuSegmentTextStart\<close>.
\<close>

definition daiku_host_with :: "string \<Rightarrow> string host" where
  "daiku_host_with text_start =
     \<lparr>execute = (\<lambda>cmd.
        if cmd = ''info symbol 0x80a00000'' \<or> cmd = ''info symbol vramStart''
           \<or> cmd = ''info sym EnDaiku_Init''
        then Inr daiku_info_symbol
        else if cmd = ''info symbol Play_Init''
        then Inr ''Play_Init in section ..code of /path/to/rom.elf''
        else if cmd = ''info symbol 0x800c0000''
        then Inr ''Play_Init in section ..code''
        else if cmd = printf_cmd ''_ovl_En_DaikuSegmentTextStart'' then Inr text_start
        else if cmd = printf_cmd ''_ovl_En_DaikuSegmentDataStart'' then Inr ''80a01000''
        else if cmd = printf_cmd ''_ovl_En_DaikuSegmentRoDataStart'' then Inr ''80a01200''
        else if cmd = printf_cmd ''_ovl_En_DaikuSegmentBssStart'' then Inr ''80a01400''
        else if cmd = ''info file'' then Inr daiku_info_file
        else if startswith cmd ''add-symbol-file '' \<or> startswith cmd ''remove-symbol-file ''
        then Inr []
        else Inl gdb_error),
      format_voidp = (\<lambda>a. if a = 0x80a00000 then Inr ''0x80a00000 <EnDaiku_Init>'' else Inr (hex a)),
      symtab_filename = (\<lambda>n.
        if n = ''EnDaiku_Init'' then Inr ''src/overlays/actors/ovl_En_Daiku/z_en_daiku.c''
        else Inl (raise_exc AttributeError [''NoneType object has no attribute symtab''])),
      progspace_filename = Inr ''/oot/build/oot.elf'',
      object_path = (\<lambda>rom c. Inr (''/oot/build/'' @ butlast c @ ''o'')),
      stem = (\<lambda>p. ''z_en_daiku''),
      global_value = (\<lambda>n. Inr n),
      table_u32 = (\<lambda>t i f.
        if t = ''gActorOverlayTable'' \<and> i = 5
        then (if f = ''loadedRamAddr'' then Inr 0x80100000 else Inr 0x80a00000)
        else Inr 0),
      enum_value = (\<lambda>n.
        if n = ''ACTOR_EN_DAIKU'' then Inr 5
        else if n = ''GAMESTATE_MAP_SELECT'' then Inr 2
        else Inl gdb_error),
      read_var = (\<lambda>n.
        if n = ''allocatedRamAddr'' then Inr 0x80100000
        else if n = ''vramStart'' then Inr 0x80a00000
        else Inl (raise_exc ValueError [''Variable not found.''])),
      read_var_field = (\<lambda>n f. Inr 0x80100000),
      str_upper = ascii_upper\<rparr>"

definition daiku_host :: "string host" where
  "daiku_host = daiku_host_with ''80a00000''"

definition sign_extended_info_file :: string where
  "sign_extended_info_file =
     ''0xffffffff80000460 - 0xffffffff80010aa0 is ..boot'' @ [CHR 0x0A] @
     ''0xffffffff80010aa0 - 0xffffffff800155b0 is ..boot.bss'' @ [CHR 0x0A]"

text \<open>The same debugger with a memory layout of sign-extended 64-bit bounds.\<close>

definition sign_extended_host :: "string host" where
  "sign_extended_host =
     daiku_host\<lparr>execute := (\<lambda>cmd. if cmd = ''info file'' then Inr sign_extended_info_file
                                   else execute daiku_host cmd)\<rparr>"

text \<open>A debugger that knows the symbol \<^verbatim>\<open>_ovl_En_DaikuTextStart\<close> and no other.\<close>

definition plain_host :: "string host" where
  "plain_host =
     daiku_host\<lparr>execute := (\<lambda>cmd. if cmd = printf_cmd ''_ovl_En_DaikuTextStart'' then Inr ''80a00000''
                                   else Inl gdb_error)\<rparr>"

text \<open>A debugger in whose program \<^verbatim>\<open>FOO_BAR\<close> is an enum constant of value 7.\<close>

definition foo_host :: "string host" where
  "foo_host =
     daiku_host\<lparr>enum_value := (\<lambda>n. if n = ''FOO_BAR'' then Inr 7 else enum_value daiku_host n)\<rparr>"

subsection \<open>The registration the specification describes\<close>

text \<open>
  A symbol-file registration that is read eagerly (\<^verbatim>\<open>-readnow\<close>), with the fixed base
  \<^verbatim>\<open>0xFF000000\<close> and the offsets of the four sections.
\<close>

definition registration_cmd :: "string \<Rightarrow> int \<Rightarrow> int \<Rightarrow> int \<Rightarrow> int \<Rightarrow> string" where
  "registration_cmd obj text_offset data_offset rodata_offset bss_offset =
     ''add-symbol-file -readnow '' @ obj @ '' -o 0xFF000000 -s .text '' @ hex text_offset @
     '' -s .data '' @ hex data_offset @ '' -s .rodata '' @ hex rodata_offset @
     '' -s .bss '' @ hex bss_offset"

text \<open>The table that the specification assigns to each of the three known prefixes.\<close>

definition overlay_table_symbol :: "string \<Rightarrow> string" where
  "overlay_table_symbol ovl_type =
     (if ovl_type = ''GAMESTATE'' then ''gGameStateOverlayTable''
      else if ovl_type = ''ACTOR'' then ''gActorOverlayTable''
      else ''gEffectSsOverlayTable'')"

text \<open>Between two sessions the debugger was sent nothing, or one such registration.\<close>

definition registration_only :: "session \<Rightarrow> session \<Rightarrow> bool" where
  "registration_only s s' =
     (host_calls s' = host_calls s
      \<or> (\<exists>obj t d r b. host_calls s' = host_calls s @ [registration_cmd obj t d r b]))"

text \<open>The registry holds at most one entry for each load address.\<close>

definition one_entry_per_address :: "session \<Rightarrow> bool" where
  "one_entry_per_address s = distinct (map fst (loaded_z64overlay_objects s))"

text \<open>The session after the overlay has been loaded once with \<^verbatim>\<open>z64ovl\<close>.\<close>

definition daiku_loaded_session :: session where
  "daiku_loaded_session
     = snd (load_z64overlay_object daiku_host initial_session 0x80100000 0x80a00000)"

definition daiku_object :: string where
  "daiku_object = ''/oot/build/src/overlays/actors/ovl_En_Daiku/z_en_daiku.o''"

section \<open>Facts about the library functions\<close>

lemma and32: "(x::int) AND 0xFFFFFFFF = x mod 2 ^ 32"
proof -
  have "(0xFFFFFFFF::int) = mask 32" by (simp add: mask_eq_exp_minus_1)
  then show ?thesis by (simp only: flip: take_bit_eq_mask take_bit_eq_mod)
qed

lemma is_hex_hexval: "is_hex c \<Longrightarrow> \<exists>v. hexval c = Some v"
  by (auto simp: is_hex_def hexval_def)

lemma is_hex_not_underscore: "is_hex c \<Longrightarrow> c \<noteq> CHR ''_''"
  by (auto simp: is_hex_def is_digit_def ord_def)

lemma is_hex_not_space: "is_hex c \<Longrightarrow> \<not> int_isspace c"
  by (auto simp: is_hex_def is_digit_def ord_def int_isspace_def)

lemma hex_digits_all_hex: "list_all is_hex ds \<Longrightarrow> \<exists>n. hex_digits acc ds = Some n"
proof (induction ds arbitrary: acc)
  case Nil
  then show ?case by simp
next
  case (Cons c ds)
  then obtain v where "hexval c = Some v" using is_hex_hexval by auto
  moreover have "c \<noteq> CHR ''_''" using Cons.prems is_hex_not_underscore by auto
  ultimately show ?case using Cons by simp
qed

lemma int_strip_id:
  assumes "\<not> int_isspace c" and "\<not> int_isspace (last (c # s))"
  shows "int_strip (c # s) = c # s"
proof -
  have a: "dropWhile int_isspace (c # s) = c # s" using assms(1) by simp
  have b: "rev (dropWhile int_isspace (rev (c # s))) = c # s"
  proof (cases "c # s" rule: rev_cases)
    case Nil
    then show ?thesis by simp
  next
    case (snoc ys y)
    then have "\<not> int_isspace y" using assms(2) by simp
    then show ?thesis unfolding snoc by simp
  qed
  show ?thesis unfolding int_strip_def by (simp only: a b)
qed

text \<open>The text that the prefix \<^verbatim>\<open>0x[0-9a-f]+\<close> matches is always read by \<^verbatim>\<open>int(..., 16)\<close>.\<close>

lemma match_0x_hex_int:
  assumes "match_0x_hex s = Some (m, r)"
  shows "\<exists>n. int_base16 m = Some n"
proof -
  from assms obtain c0 cx t where s: "s = c0 # cx # t"
    and c0: "c0 = CHR ''0''" and cx: "cx = CHR ''x'' \<or> cx = CHR ''X''"
    and ne: "takeWhile is_hex t \<noteq> []" and m: "m = c0 # cx # takeWhile is_hex t"
    by (auto simp: match_0x_hex_def split: list.splits if_splits)
  let ?ds = "takeWhile is_hex t"
  have all: "list_all is_hex ?ds"
    by (simp add: list_all_iff) (meson set_takeWhileD)
  then have lasthex: "is_hex (last ?ds)" using ne by (simp add: list_all_iff)
  have "last m = last ?ds" using m ne by simp
  then have "\<not> int_isspace (last (c0 # cx # ?ds))"
    using m is_hex_not_space lasthex by simp
  moreover have "\<not> int_isspace c0" using c0 by (simp add: int_isspace_def)
  ultimately have st: "int_strip m = m" unfolding m by (rule int_strip_id[rotated 1])
  obtain d ds' where ds: "?ds = d # ds'" using ne by (cases ?ds) auto
  then have "is_hex d" using all by simp
  then have d_us: "d \<noteq> CHR ''_''" using is_hex_not_underscore by blast
  obtain n where "hex_digits 0 ?ds = Some n" using hex_digits_all_hex[OF all] by blast
  then have "hex_literal m = Some n"
    using m c0 cx ds d_us by (auto simp: hex_literal_def)
  then show ?thesis using st m c0 by (simp add: int_base16_def)
qed

lemma pattern_line_range:
  assumes "INFO_FILE_LINE_PATTERN line = Some (a, b, sec)"
  shows "\<exists>x y. int_base16 a = Some x \<and> int_base16 b = Some y
           \<and> line_range line = Some (x AND 0xFFFFFFFF, y AND 0xFFFFFFFF, sec)"
proof -
  from assms obtain r1 where m1: "match_0x_hex line = Some (a, r1)"
    by (auto simp: INFO_FILE_LINE_PATTERN_def split: option.splits if_splits)
  with assms obtain r2 where m2: "match_0x_hex (drop 3 r1) = Some (b, r2)"
    by (auto simp: INFO_FILE_LINE_PATTERN_def split: option.splits if_splits)
  from match_0x_hex_int[OF m1] obtain x where x: "int_base16 a = Some x" by blast
  from match_0x_hex_int[OF m2] obtain y where y: "int_base16 b = Some y" by blast
  show ?thesis using assms x y by (simp add: line_range_def)
qed

section \<open>The loop over the lines of \<^verbatim>\<open>info file\<close>\<close>

lemma section_in_lines_Cons:
  "section_in_lines (line # lines) addr =
     (case line_range line of
        None \<Rightarrow> section_in_lines lines addr
      | Some (start, end, sec) \<Rightarrow>
          if start \<le> addr \<and> addr < end then Inr sec else section_in_lines lines addr)"
proof (cases "INFO_FILE_LINE_PATTERN line")
  case None
  then show ?thesis by (simp add: line_range_def)
next
  case (Some t)
  obtain a b sec where t: "t = (a, b, sec)" by (cases t) auto
  from pattern_line_range[of line a b sec] Some t obtain x y where
    "int_base16 a = Some x" "int_base16 b = Some y"
    "line_range line = Some (x AND 0xFFFFFFFF, y AND 0xFFFFFFFF, sec)" by auto
  then show ?thesis using Some t by (simp add: Let_def)
qed

lemma section_in_lines_skip:
  "\<forall>l\<in>set pre. \<not> line_holds l addr \<Longrightarrow>
     section_in_lines (pre @ rest) addr = section_in_lines rest addr"
proof (induction pre)
  case Nil
  then show ?case by simp
next
  case (Cons l pre)
  then have "\<not> line_holds l addr" by simp
  then have "section_in_lines (l # (pre @ rest)) addr = section_in_lines (pre @ rest) addr"
    unfolding section_in_lines_Cons by (auto simp: line_holds_def split: option.splits)
  with Cons show ?case by simp
qed

lemma boot_line_range:
  "line_range ''0x00001060 - 0x00002000 is ..boot'' = Some (0x1060, 0x2000, ''..boot'')"
  by code_simp

lemma code_line_range:
  "line_range ''0xffffffff80000460 - 0xffffffff80010aa0 is ..boot''
     = Some (0x80000460, 0x80010aa0, ''..boot'')"
  by code_simp

lemma split_info_sym_long:
  "split ''Play_Init in section ..code of /path/to/rom.elf'' ''in section ''
     = [''Play_Init '', ''..code of /path/to/rom.elf'']"
  by code_simp

lemma split_info_sym_short:
  "split ''Play_Init in section ..code'' ''in section '' = [''Play_Init '', ''..code'']"
  by code_simp

lemma split_of_long:
  "split ''..code of /path/to/rom.elf'' '' of '' = [''..code'', ''/path/to/rom.elf'']"
  by code_simp

lemma split_of_short: "split ''..code'' '' of '' = [''..code'']"
  by code_simp

lemma strip_code: "removeprefix ''..'' (strip ''..code'') = ''code''"
  by code_simp

section \<open>Effects of the operations on the session\<close>

lemma print_fields [simp]:
  "loaded_z64overlay_objects (print l s) = loaded_z64overlay_objects s"
  "bp_load_enabled (print l s) = bp_load_enabled s"
  "host_calls (print l s) = host_calls s"
  "printed (print l s) = printed s @ [l]"
  by (simp_all add: print_def)

lemma host_call_fields [simp]:
  "loaded_z64overlay_objects (host_call c s) = loaded_z64overlay_objects s"
  "bp_load_enabled (host_call c s) = bp_load_enabled s"
  "host_calls (host_call c s) = host_calls s @ [c]"
  "printed (host_call c s) = printed s"
  by (simp_all add: host_call_def)

lemma add_symbol_file_cmd_registration:
  "add_symbol_file_cmd obj offs
     = registration_cmd obj (offs TEXT) (offs DATA) (offs RODATA) (offs BSS)"
  by (simp add: add_symbol_file_cmd_def registration_cmd_def)

lemma resolve_ovl_addresses_Inr:
  "resolve_ovl_addresses gsa n = Inr f \<longleftrightarrow>
     (\<forall>sec. gsa n (linker_script_name sec) = Inr (f sec))"
proof
  assume "resolve_ovl_addresses gsa n = Inr f"
  then show "\<forall>sec. gsa n (linker_script_name sec) = Inr (f sec)"
    by (auto simp: resolve_ovl_addresses_def split: sum.splits SectionType.splits)
next
  assume a: "\<forall>sec. gsa n (linker_script_name sec) = Inr (f sec)"
  have "gsa n ''Text'' = Inr (f TEXT)" "gsa n ''Data'' = Inr (f DATA)"
       "gsa n ''RoData'' = Inr (f RODATA)" "gsa n ''Bss'' = Inr (f BSS)"
    using a[rule_format, of TEXT] a[rule_format, of DATA] a[rule_format, of RODATA]
      a[rule_format, of BSS] by simp_all
  then have "resolve_ovl_addresses gsa n
               = Inr (\<lambda>sec. case sec of TEXT \<Rightarrow> f TEXT | DATA \<Rightarrow> f DATA | RODATA \<Rightarrow> f RODATA | BSS \<Rightarrow> f BSS)"
    by (simp add: resolve_ovl_addresses_def)
  moreover have "(\<lambda>sec. case sec of TEXT \<Rightarrow> f TEXT | DATA \<Rightarrow> f DATA | RODATA \<Rightarrow> f RODATA | BSS \<Rightarrow> f BSS) = f"
    by (rule ext) (simp split: SectionType.splits)
  ultimately show "resolve_ovl_addresses gsa n = Inr f" by simp
qed

text \<open>Every way through \<^verbatim>\<open>load_z64overlay_object\<close>: it stops before the registry is
  written, with at most a line printed, or it writes the registry and sends one command.\<close>

lemma load_z64overlay_object_cases:
  "(\<exists>pr. snd (load_z64overlay_object h s a v) = s\<lparr>printed := pr\<rparr>)
   \<or> (\<exists>pr obj f. a \<notin> fst ` set (loaded_z64overlay_objects s)
         \<and> (\<forall>sec. \<exists>n. get_section_address h n (linker_script_name sec) = Inr (f sec))
         \<and> snd (load_z64overlay_object h s a v)
             = s\<lparr>loaded_z64overlay_objects := AList.update a obj (loaded_z64overlay_objects s),
                 printed := pr,
                 host_calls := host_calls s @ [registration_cmd obj (a + (f TEXT - v))
                    (a + (f DATA - v)) (a + (f RODATA - v)) (a + (f BSS - v))]\<rparr>)"
proof (cases "a \<in> fst ` set (loaded_z64overlay_objects s)")
  case True
  then have "snd (load_z64overlay_object h s a v) = s\<lparr>printed := printed s\<rparr>"
    by (simp add: load_z64overlay_object_def)
  then show ?thesis by blast
next
  case False
  define found where "found =
     (case get_sym_section h (SymAddr v) of
        Inr n \<Rightarrow> (Inr n, s)
      | Inl e \<Rightarrow>
          if kind e = ValueError
          then (get_section_by_addr h v,
                print ''get_sym_section() failed, trying get_section_by_addr()'' s)
          else (Inl e, s))"
  obtain r s1 where fs: "found = (r, s1)" by (cases found) auto
  have s1: "\<exists>pr. s1 = s\<lparr>printed := pr\<rparr>"
  proof -
    have "s1 = s \<or> s1 = print ''get_sym_section() failed, trying get_section_by_addr()'' s"
      using fs by (auto simp: found_def split: sum.splits if_splits)
    moreover have "s = s\<lparr>printed := printed s\<rparr>" by simp
    ultimately show ?thesis unfolding print_def by metis
  qed
  then obtain pr1 where pr1: "s1 = s\<lparr>printed := pr1\<rparr>" by blast
  show ?thesis
  proof (cases r)
    case (Inl e)
    then have "snd (load_z64overlay_object h s a v) = s1"
      using False fs by (simp add: load_z64overlay_object_def found_def[symmetric])
    then show ?thesis using pr1 by blast
  next
    case (Inr n0)
    show ?thesis
    proof (cases "resolve_ovl_addresses (get_section_address h) (removeprefix ''..'' n0)")
      case (Inl e)
      then have "snd (load_z64overlay_object h s a v) = s1"
        using False fs Inr by (simp add: load_z64overlay_object_def found_def[symmetric])
      then show ?thesis using pr1 by blast
    next
      case f: (Inr f)
      then have all: "\<forall>sec. \<exists>n. get_section_address h n (linker_script_name sec) = Inr (f sec)"
        unfolding resolve_ovl_addresses_Inr by blast
      show ?thesis
      proof (cases "target_object_path h v")
        case (Inl e)
        then have "snd (load_z64overlay_object h s a v) = s1"
          using False fs Inr f by (simp add: load_z64overlay_object_def found_def[symmetric])
        then show ?thesis using pr1 by blast
      next
        case obj: (Inr obj)
        let ?cmd = "registration_cmd obj (a + (f TEXT - v)) (a + (f DATA - v))
                      (a + (f RODATA - v)) (a + (f BSS - v))"
        let ?reading = "''Reading '' @ stem h obj @ ''...''"
        have "snd (load_z64overlay_object h s a v)
             = s\<lparr>loaded_z64overlay_objects := AList.update a obj (loaded_z64overlay_objects s),
                 printed := (case execute h ?cmd of
                               Inl _ \<Rightarrow> pr1 @ [?reading]
                             | Inr _ \<Rightarrow> pr1 @ [?reading, ''Complete.'']),
                 host_calls := host_calls s @ [?cmd]\<rparr>"
          using False fs Inr f obj pr1
          by (simp add: load_z64overlay_object_def found_def[symmetric] Let_def print_def
                host_call_def add_symbol_file_cmd_registration split: sum.splits)
        then show ?thesis using False all by blast
      qed
    qed
  qed
qed

text \<open>
  The comment in \<^verbatim>\<open>get_section_by_addr\<close> shows the lines of \<^verbatim>\<open>info file\<close> with a leading
  tab. The pattern is applied with \<^verbatim>\<open>fullmatch\<close> and starts with \<^verbatim>\<open>0x\<close>, so a line that
  begins with a tab is skipped.
\<close>

lemma tab_line_not_matched: "INFO_FILE_LINE_PATTERN (CHR 0x09 # line) = None"
  by (simp add: INFO_FILE_LINE_PATTERN_def match_0x_hex_def split: list.splits)

lemma registration_only_refl [simp]: "registration_only s s"
  "registration_only s (print l s)" "registration_only s (s\<lparr>printed := pr\<rparr>)"
  "registration_only s (s\<lparr>bp_load_enabled := b\<rparr>)"
  by (simp_all add: registration_only_def)

lemma one_entry_per_address_print [simp]:
  "one_entry_per_address (print l s) = one_entry_per_address s"
  "one_entry_per_address (s\<lparr>printed := pr\<rparr>) = one_entry_per_address s"
  "one_entry_per_address (s\<lparr>bp_load_enabled := b\<rparr>) = one_entry_per_address s"
  by (simp_all add: one_entry_per_address_def)

lemma load_z64overlay_object_registration:
  "registration_only s (snd (load_z64overlay_object h s a v))"
proof -
  from load_z64overlay_object_cases[of h s a v]
  consider (stopped) pr where "snd (load_z64overlay_object h s a v) = s\<lparr>printed := pr\<rparr>"
    | (sent) cmd where
        "host_calls (snd (load_z64overlay_object h s a v)) = host_calls s @ [cmd]"
        "\<exists>obj t d r b. cmd = registration_cmd obj t d r b"
    by force
  then show ?thesis
  proof cases
    case stopped
    then show ?thesis by simp
  next
    case sent
    then show ?thesis unfolding registration_only_def by blast
  qed
qed

lemma load_z64overlay_object_one_entry:
  "one_entry_per_address s \<Longrightarrow> one_entry_per_address (snd (load_z64overlay_object h s a v))"
proof -
  assume i: "one_entry_per_address s"
  from load_z64overlay_object_cases[of h s a v]
  consider (stopped) pr where "snd (load_z64overlay_object h s a v) = s\<lparr>printed := pr\<rparr>"
    | (sent) obj where
        "loaded_z64overlay_objects (snd (load_z64overlay_object h s a v))
           = AList.update a obj (loaded_z64overlay_objects s)"
    by force
  then show ?thesis
  proof cases
    case stopped
    then show ?thesis using i by simp
  next
    case sent
    then show ?thesis using i by (simp add: one_entry_per_address_def distinct_update)
  qed
qed

lemma load_z64overlay_object_from_table_registration:
  "registration_only s (snd (load_z64overlay_object_from_table h s t i))"
  by (simp add: load_z64overlay_object_from_table_def Let_def
        load_z64overlay_object_registration split: sum.splits)

lemma load_z64overlay_object_from_table_one_entry:
  "one_entry_per_address s \<Longrightarrow>
     one_entry_per_address (snd (load_z64overlay_object_from_table h s t i))"
  by (simp add: load_z64overlay_object_from_table_def Let_def
        load_z64overlay_object_one_entry split: sum.splits)

lemma unload_z64overlay_object_one_entry:
  "one_entry_per_address s \<Longrightarrow> one_entry_per_address (snd (unload_z64overlay_object h s a))"
  by (simp add: unload_z64overlay_object_def Let_def one_entry_per_address_def
        distinct_delete split: option.splits sum.splits)

text \<open>The dispatch of the two commands on an argument that is neither a sub-command nor
  an alias.\<close>

lemma findall_type_Cons:
  "takeWhile (\<lambda>c. c \<noteq> CHR ''_'') arg = ovl_type \<Longrightarrow> ovl_type \<noteq> [] \<Longrightarrow>
     findall_type arg = [ovl_type]"
  by (auto simp: findall_type_def)

lemma LoadZ64OvlCmd_invoke_other:
  assumes "str_upper h arg0 = arg"
    and "arg \<notin> set [''AUTO ON'', ''AUTO OFF'', ''PAUSE'', ''KALEIDO'', ''KALEIDO_SCOPE'',
                      ''ACTOR_PLAYER'']"
  shows "LoadZ64OvlCmd_invoke h s arg0 =
        (case findall_type arg of
           [] \<Rightarrow> (Inl (raise_exc IndexError [''list index out of range'']), s)
         | ovl_type # _ \<Rightarrow>
             (case (if ovl_type = ''GAMESTATE'' then Some (global_value h ''gGameStateOverlayTable'')
                    else if ovl_type = ''ACTOR'' then Some (global_value h ''gActorOverlayTable'')
                    else if ovl_type = ''EFFECT'' then Some (global_value h ''gEffectSsOverlayTable'')
                    else None) of
                None \<Rightarrow> (Inr (), print ''ERROR: Type of enum provided is not supported'' s)
              | Some (Inl e) \<Rightarrow> (Inl e, s)
              | Some (Inr table) \<Rightarrow>
                  (case enum_value h arg of
                     Inl _ \<Rightarrow> (Inr (), print ''ERROR: Provided enum value could not be found in the elf'' s)
                   | Inr index \<Rightarrow> load_z64overlay_object_from_table h s table index)))"
proof -
  have n: "arg \<noteq> ''AUTO ON''" "arg \<noteq> ''AUTO OFF''"
    "\<not> arg \<in> set [''PAUSE'', ''KALEIDO'', ''KALEIDO_SCOPE'']" "arg \<noteq> ''ACTOR_PLAYER''"
    using assms(2) by simp_all
  show ?thesis
    unfolding LoadZ64OvlCmd_invoke_def Let_def assms(1)
    by (simp only: n if_False)
qed

lemma LoadZ64OvlCmd_invoke_dispatch:
  assumes "str_upper h arg0 = arg"
    and "arg \<notin> set [''AUTO ON'', ''AUTO OFF'', ''PAUSE'', ''KALEIDO'', ''KALEIDO_SCOPE'',
                      ''ACTOR_PLAYER'']"
    and "takeWhile (\<lambda>c. c \<noteq> CHR ''_'') arg = ovl_type"
    and "ovl_type \<noteq> []"
  shows "LoadZ64OvlCmd_invoke h s arg0 =
           (if ovl_type \<in> set [''GAMESTATE'', ''ACTOR'', ''EFFECT''] then
              (case global_value h (overlay_table_symbol ovl_type) of
                 Inl e \<Rightarrow> (Inl e, s)
               | Inr table \<Rightarrow>
                   (case enum_value h arg of
                      Inl _ \<Rightarrow> (Inr (), print ''ERROR: Provided enum value could not be found in the elf'' s)
                    | Inr index \<Rightarrow> load_z64overlay_object_from_table h s table index))
            else (Inr (), print ''ERROR: Type of enum provided is not supported'' s))"
proof -
  have f: "findall_type arg = [ovl_type]" using assms(3,4) by (rule findall_type_Cons)
  consider (g) "ovl_type = ''GAMESTATE''" | (a) "ovl_type = ''ACTOR''" | (e) "ovl_type = ''EFFECT''"
    | (n) "ovl_type \<noteq> ''GAMESTATE''" "ovl_type \<noteq> ''ACTOR''" "ovl_type \<noteq> ''EFFECT''"
    by blast
  then show ?thesis
  proof cases
    case g
    show ?thesis unfolding LoadZ64OvlCmd_invoke_other[OF assms(1,2)] f g
      by (simp add: overlay_table_symbol_def split: sum.splits)
  next
    case a
    show ?thesis unfolding LoadZ64OvlCmd_invoke_other[OF assms(1,2)] f a
      by (simp add: overlay_table_symbol_def split: sum.splits)
  next
    case e
    show ?thesis unfolding LoadZ64OvlCmd_invoke_other[OF assms(1,2)] f e
      by (simp add: overlay_table_symbol_def split: sum.splits)
  next
    case n
    show ?thesis unfolding LoadZ64OvlCmd_invoke_other[OF assms(1,2)] f
      using n by simp
  qed
qed

lemma LoadOvlCmd_invoke_other:
  assumes "str_upper h arg0 = arg"
    and "arg \<notin> set [''PAUSE'', ''KALEIDO'', ''KALEIDO_SCOPE'', ''ACTOR_PLAYER'']"
  shows "LoadOvlCmd_invoke gsa h s arg0 =
        (case enum_value h arg of
           Inl _ \<Rightarrow> (Inr (), print ''ERROR: Provided enum value could not be found in the elf'' s)
         | Inr index \<Rightarrow>
             (case findall_type arg of
                [] \<Rightarrow> (Inl (raise_exc IndexError [''list index out of range'']), s)
              | ovl_type # _ \<Rightarrow>
                  (case (if ovl_type = ''GAMESTATE'' then Some (global_value h ''gGameStateOverlayTable'')
                         else if ovl_type = ''ACTOR'' then Some (global_value h ''gActorOverlayTable'')
                         else if ovl_type = ''EFFECT'' then Some (global_value h ''gEffectSsOverlayTable'')
                         else None) of
                     None \<Rightarrow> (Inl (raise_exc Exception [''Type of enum provided is not supported'']), s)
                   | Some (Inl e) \<Rightarrow> (Inl e, s)
                   | Some (Inr table) \<Rightarrow>
                       (case GetAllocAddress h table index of
                          Inl e \<Rightarrow> (Inl e, s)
                        | Inr a \<Rightarrow> AddOverlaySymbols gsa h s a))))"
proof -
  have n: "\<not> (arg = ''PAUSE'' \<or> arg = ''KALEIDO'' \<or> arg = ''KALEIDO_SCOPE'')"
    "arg \<noteq> ''ACTOR_PLAYER''"
    using assms(2) by simp_all
  show ?thesis
    unfolding LoadOvlCmd_invoke_def Let_def assms(1)
    by (simp only: n if_False)
qed

lemma LoadOvlCmd_invoke_dispatch:
  assumes "str_upper h arg0 = arg"
    and "arg \<notin> set [''PAUSE'', ''KALEIDO'', ''KALEIDO_SCOPE'', ''ACTOR_PLAYER'']"
    and "takeWhile (\<lambda>c. c \<noteq> CHR ''_'') arg = ovl_type"
    and "ovl_type \<noteq> []"
  shows "LoadOvlCmd_invoke gsa h s arg0 =
           (case enum_value h arg of
              Inl _ \<Rightarrow> (Inr (), print ''ERROR: Provided enum value could not be found in the elf'' s)
            | Inr index \<Rightarrow>
                if ovl_type \<in> set [''GAMESTATE'', ''ACTOR'', ''EFFECT''] then
                  (case global_value h (overlay_table_symbol ovl_type) of
                     Inl e \<Rightarrow> (Inl e, s)
                   | Inr table \<Rightarrow>
                       (case GetAllocAddress h table index of
                          Inl e \<Rightarrow> (Inl e, s)
                        | Inr a \<Rightarrow> AddOverlaySymbols gsa h s a))
                else (Inl (raise_exc Exception [''Type of enum provided is not supported'']), s))"
proof -
  have f: "findall_type arg = [ovl_type]" using assms(3,4) by (rule findall_type_Cons)
  consider (g) "ovl_type = ''GAMESTATE''" | (a) "ovl_type = ''ACTOR''" | (e) "ovl_type = ''EFFECT''"
    | (n) "ovl_type \<noteq> ''GAMESTATE''" "ovl_type \<noteq> ''ACTOR''" "ovl_type \<noteq> ''EFFECT''"
    by blast
  then show ?thesis
  proof cases
    case g
    show ?thesis unfolding LoadOvlCmd_invoke_other[OF assms(1,2)] f g
      by (simp add: overlay_table_symbol_def split: sum.splits)
  next
    case a
    show ?thesis unfolding LoadOvlCmd_invoke_other[OF assms(1,2)] f a
      by (simp add: overlay_table_symbol_def split: sum.splits)
  next
    case e
    show ?thesis unfolding LoadOvlCmd_invoke_other[OF assms(1,2)] f e
      by (simp add: overlay_table_symbol_def split: sum.splits)
  next
    case n
    show ?thesis unfolding LoadOvlCmd_invoke_other[OF assms(1,2)] f
      using n by (simp split: sum.splits)
  qed
qed

lemma LoadZ64OvlCmd_invoke_frame:
  "registration_only s (snd (LoadZ64OvlCmd_invoke h s arg0))
   \<and> (one_entry_per_address s \<longrightarrow> one_entry_per_address (snd (LoadZ64OvlCmd_invoke h s arg0)))"
proof -
  define arg where "arg = str_upper h arg0"
  have u: "str_upper h arg0 = arg" by (simp add: arg_def)
  let ?P = "\<lambda>r. registration_only s (snd r)
                \<and> (one_entry_per_address s \<longrightarrow> one_entry_per_address (snd r))"
  have ft: "?P (load_z64overlay_object_from_table h s t i)" for t i
    by (simp add: load_z64overlay_object_from_table_registration
          load_z64overlay_object_from_table_one_entry)
  have al: "?P (case global_value h n of Inl e \<Rightarrow> (Inl e, s)
                | Inr table \<Rightarrow> load_z64overlay_object_from_table h s table i)" for n i
    using ft by (simp split: sum.splits)
  consider (on) "arg = ''AUTO ON''" | (off) "arg = ''AUTO OFF''"
    | (pause) "arg \<noteq> ''AUTO ON''" "arg \<noteq> ''AUTO OFF''"
        "arg \<in> set [''PAUSE'', ''KALEIDO'', ''KALEIDO_SCOPE'']"
    | (player) "arg \<noteq> ''AUTO ON''" "arg \<noteq> ''AUTO OFF''"
        "\<not> arg \<in> set [''PAUSE'', ''KALEIDO'', ''KALEIDO_SCOPE'']" "arg = ''ACTOR_PLAYER''"
    | (other) "arg \<notin> set [''AUTO ON'', ''AUTO OFF'', ''PAUSE'', ''KALEIDO'', ''KALEIDO_SCOPE'',
                      ''ACTOR_PLAYER'']"
    by auto
  then show ?thesis
  proof cases
    case on
    show ?thesis unfolding LoadZ64OvlCmd_invoke_def Let_def u on
      by (simp add: registration_only_def)
  next
    case off
    show ?thesis unfolding LoadZ64OvlCmd_invoke_def Let_def u off
      by (simp add: registration_only_def)
  next
    case pause
    have "LoadZ64OvlCmd_invoke h s arg0
            = (case global_value h ''gKaleidoMgrOverlayTable'' of Inl e \<Rightarrow> (Inl e, s)
               | Inr table \<Rightarrow> load_z64overlay_object_from_table h s table 0)"
      unfolding LoadZ64OvlCmd_invoke_def Let_def u by (simp only: pause if_False if_True)
    then show ?thesis using al by simp
  next
    case player
    have "LoadZ64OvlCmd_invoke h s arg0
            = (case global_value h ''gKaleidoMgrOverlayTable'' of Inl e \<Rightarrow> (Inl e, s)
               | Inr table \<Rightarrow> load_z64overlay_object_from_table h s table 1)"
      unfolding LoadZ64OvlCmd_invoke_def Let_def u
      by (simp only: player(1,2,3) if_False) (simp only: player(4) if_True simp_thms)
    then show ?thesis using al by simp
  next
    case other
    show ?thesis
    proof (cases "findall_type arg")
      case Nil
      then show ?thesis unfolding LoadZ64OvlCmd_invoke_other[OF u other] by simp
    next
      case (Cons ovl_type rest)
      then have t: "takeWhile (\<lambda>c. c \<noteq> CHR ''_'') arg = ovl_type" "ovl_type \<noteq> []"
        by (auto simp: findall_type_def split: if_splits)
      show ?thesis
        unfolding LoadZ64OvlCmd_invoke_dispatch[OF u other t]
        using ft by (simp split: sum.splits)
    qed
  qed
qed

text \<open>\<^verbatim>\<open>AddOverlaySymbols\<close> sends nothing to the debugger and leaves the registry and the
  breakpoint flag alone; for a load address other than 0 it raises.\<close>

lemma AddOverlaySymbols_printed_only:
  "\<exists>pr. snd (AddOverlaySymbols gsa h s a) = s\<lparr>printed := pr\<rparr>"
proof -
  have p: "\<exists>pr. print l s = s\<lparr>printed := pr\<rparr>" for l
    by (rule exI[of _ "printed s @ [l]"]) (simp add: print_def)
  show ?thesis
    unfolding AddOverlaySymbols_def Let_def
    by (simp add: p split: sum.splits option.splits)
qed

lemma AddOverlaySymbols_raises:
  "a \<noteq> 0 \<Longrightarrow> \<exists>e. fst (AddOverlaySymbols gsa h s a) = Inl e"
  unfolding AddOverlaySymbols_def Let_def
  by (simp split: sum.splits option.splits)

lemma AddOverlaySymbols_registration:
  "registration_only s (snd (AddOverlaySymbols gsa h s a))"
  using AddOverlaySymbols_printed_only[of gsa h s a] by auto

lemma LoadOvlCmd_invoke_registration:
  "registration_only s (snd (LoadOvlCmd_invoke gsa h s arg0))"
proof -
  define arg where "arg = str_upper h arg0"
  have u: "str_upper h arg0 = arg" by (simp add: arg_def)
  have al: "registration_only s (snd (case global_value h n of Inl e \<Rightarrow> (Inl e, s)
              | Inr table \<Rightarrow>
                  (case GetAllocAddress h table i of Inl e \<Rightarrow> (Inl e, s)
                   | Inr a \<Rightarrow> AddOverlaySymbols gsa h s a)))" for n i
    by (simp add: AddOverlaySymbols_registration split: sum.splits)
  consider (pause) "arg = ''PAUSE'' \<or> arg = ''KALEIDO'' \<or> arg = ''KALEIDO_SCOPE''"
    | (player) "\<not> (arg = ''PAUSE'' \<or> arg = ''KALEIDO'' \<or> arg = ''KALEIDO_SCOPE'')"
        "arg = ''ACTOR_PLAYER''"
    | (other) "arg \<notin> set [''PAUSE'', ''KALEIDO'', ''KALEIDO_SCOPE'', ''ACTOR_PLAYER'']"
    by auto
  then show ?thesis
  proof cases
    case pause
    have "LoadOvlCmd_invoke gsa h s arg0
            = (case global_value h ''gKaleidoMgrOverlayTable'' of Inl e \<Rightarrow> (Inl e, s)
               | Inr table \<Rightarrow>
                  (case GetAllocAddress h table 0 of Inl e \<Rightarrow> (Inl e, s)
                   | Inr a \<Rightarrow> AddOverlaySymbols gsa h s a))"
      unfolding LoadOvlCmd_invoke_def Let_def u by (simp only: pause if_True)
    then show ?thesis using al by simp
  next
    case player
    have "LoadOvlCmd_invoke gsa h s arg0
            = (case global_value h ''gKaleidoMgrOverlayTable'' of Inl e \<Rightarrow> (Inl e, s)
               | Inr table \<Rightarrow>
                  (case GetAllocAddress h table 1 of Inl e \<Rightarrow> (Inl e, s)
                   | Inr a \<Rightarrow> AddOverlaySymbols gsa h s a))"
      unfolding LoadOvlCmd_invoke_def Let_def u
      by (simp only: player(1) if_False) (simp only: player(2) if_True simp_thms)
    then show ?thesis using al by simp
  next
    case other
    show ?thesis
    proof (cases "findall_type arg")
      case Nil
      then show ?thesis unfolding LoadOvlCmd_invoke_other[OF u other]
        by (simp split: sum.splits)
    next
      case (Cons ovl_type rest)
      then have t: "takeWhile (\<lambda>c. c \<noteq> CHR ''_'') arg = ovl_type" "ovl_type \<noteq> []"
        by (auto simp: findall_type_def split: if_splits)
      show ?thesis
        unfolding LoadOvlCmd_invoke_dispatch[OF u other t]
        by (simp add: AddOverlaySymbols_registration split: sum.splits)
    qed
  qed
qed

lemma BreakpointOverlayLoad_stop_registration:
  "registration_only s (snd (BreakpointOverlayLoad_stop h s))"
  by (simp add: BreakpointOverlayLoad_stop_def load_z64overlay_object_registration
        split: sum.splits)

section \<open>The claims\<close>

text \<open>
  C1. In a load by \<^verbatim>\<open>z64ovl\<close> (\<^verbatim>\<open>load_z64overlay_object\<close>) that reaches the registration,
  the offset given for each of the four sections is
  \<open>alloc_address + (section_link_address - vram_address)\<close>, where \<^verbatim>\<open>vram_address\<close> is the
  \<^verbatim>\<open>vramStart\<close> of the overlay and the link addresses are those that
  \<^verbatim>\<open>get_section_address\<close> resolves; a section linked at \<^verbatim>\<open>vram_address\<close> gets the offset
  \<open>alloc_address\<close>.

  The \<^verbatim>\<open>ovl\<close> command does not get that far. For every load address other than 0,
  \<^verbatim>\<open>AddOverlaySymbols\<close> raises and sends nothing to the debugger, so no section offset of
  its computation is ever registered. When the debugger answers the two
  \<^verbatim>\<open>info symbol\<close> queries, the error is the \<^verbatim>\<open>NameError\<close> of \<^verbatim>\<open>get_section_address\<close>
  (line 30) if that name is unbound; if it is bound and resolves the four section starts
  and the source file of the symbol is found, the error is the \<^verbatim>\<open>NameError\<close> of
  \<^verbatim>\<open>obj_address_map\<close> (line 44).
\<close>

theorem section_offsets:
  assumes "alloc_address \<notin> fst ` set (loaded_z64overlay_objects s)"
    and "get_sym_section h (SymAddr vram_address) = Inr sec_name
         \<or> (\<exists>e. get_sym_section h (SymAddr vram_address) = Inl e \<and> kind e = ValueError
                \<and> get_section_by_addr h vram_address = Inr sec_name)"
    and "\<forall>sec. get_section_address h (removeprefix ''..'' sec_name) (linker_script_name sec)
                 = Inr (ovl_addresses sec)"
    and "target_object_path h vram_address = Inr obj"
    and "alloc \<noteq> 0"
    and "execute h' ''info symbol vramStart'' = Inr sym_out"
    and "target_func_name = rstrip (fst (partition_str sym_out '' ''))"
    and "execute h' (''info sym '' @ target_func_name) = Inr sec_out"
    and "ovl = rstrip (fst (partition_str (snd (snd (partition_str sec_out ''section ..''))) '' ''))"
    and "bound ovl ''Text'' = Inr t" and "bound ovl ''Data'' = Inr d"
    and "bound ovl ''RoData'' = Inr r" and "bound ovl ''Bss'' = Inr b"
    and "symtab_filename h' target_func_name = Inr c"
  shows "host_calls (snd (load_z64overlay_object h s alloc_address vram_address))
           = host_calls s
             @ [registration_cmd obj
                  (alloc_address + (ovl_addresses TEXT - vram_address))
                  (alloc_address + (ovl_addresses DATA - vram_address))
                  (alloc_address + (ovl_addresses RODATA - vram_address))
                  (alloc_address + (ovl_addresses BSS - vram_address))]
       \<and> (\<exists>e. fst (AddOverlaySymbols gsa h' s' alloc) = Inl e)
       \<and> host_calls (snd (AddOverlaySymbols gsa h' s' alloc)) = host_calls s'
       \<and> AddOverlaySymbols None h' s' alloc
           = (Inl (name_error ''get_section_address''),
              print (''Loading symbols for actor at  '' @ str_int alloc) s')
       \<and> AddOverlaySymbols (Some bound) h' s' alloc
           = (Inl (name_error ''obj_address_map''),
              print (''Loading symbols for actor at  '' @ str_int alloc) s')"
proof -
  have res: "resolve_ovl_addresses (get_section_address h) (removeprefix ''..'' sec_name)
               = Inr ovl_addresses"
    using assms(3) by (simp add: resolve_ovl_addresses_Inr)
  have z: "host_calls (snd (load_z64overlay_object h s alloc_address vram_address))
           = host_calls s
             @ [registration_cmd obj
                  (alloc_address + (ovl_addresses TEXT - vram_address))
                  (alloc_address + (ovl_addresses DATA - vram_address))
                  (alloc_address + (ovl_addresses RODATA - vram_address))
                  (alloc_address + (ovl_addresses BSS - vram_address))]"
    using assms(2)
  proof
    assume "get_sym_section h (SymAddr vram_address) = Inr sec_name"
    then show ?thesis
      using assms(1,4) res
      by (simp add: load_z64overlay_object_def Let_def add_symbol_file_cmd_registration
            split: sum.splits)
  next
    assume "\<exists>e. get_sym_section h (SymAddr vram_address) = Inl e \<and> kind e = ValueError
                \<and> get_section_by_addr h vram_address = Inr sec_name"
    then obtain e where "get_sym_section h (SymAddr vram_address) = Inl e"
      "kind e = ValueError" "get_section_by_addr h vram_address = Inr sec_name" by blast
    then show ?thesis
      using assms(1,4) res
      by (simp add: load_z64overlay_object_def Let_def add_symbol_file_cmd_registration
            split: sum.splits)
  qed
  have raises: "\<exists>e. fst (AddOverlaySymbols gsa h' s' alloc) = Inl e"
    using assms(5) by (rule AddOverlaySymbols_raises)
  have sends: "host_calls (snd (AddOverlaySymbols gsa h' s' alloc)) = host_calls s'"
    using AddOverlaySymbols_printed_only[of gsa h' s' alloc] by auto
  have e2: "execute h' (''info sym '' @ rstrip (fst (partition_str sym_out '' ''))) = Inr sec_out"
    using assms(7,8) by simp
  have unbound: "AddOverlaySymbols None h' s' alloc
           = (Inl (name_error ''get_section_address''),
              print (''Loading symbols for actor at  '' @ str_int alloc) s')"
    using assms(5,6) e2 by (simp add: AddOverlaySymbols_def Let_def)
  have g: "bound (rstrip (fst (partition_str (snd (snd (partition_str sec_out ''section ..''))) '' '')))
             ''Text'' = Inr t"
    "bound (rstrip (fst (partition_str (snd (snd (partition_str sec_out ''section ..''))) '' '')))
             ''Data'' = Inr d"
    "bound (rstrip (fst (partition_str (snd (snd (partition_str sec_out ''section ..''))) '' '')))
             ''RoData'' = Inr r"
    "bound (rstrip (fst (partition_str (snd (snd (partition_str sec_out ''section ..''))) '' '')))
             ''Bss'' = Inr b"
    using assms(9-13) by simp_all
  have c: "symtab_filename h' (rstrip (fst (partition_str sym_out '' ''))) = Inr c"
    using assms(7,14) by simp
  have line44: "AddOverlaySymbols (Some bound) h' s' alloc
           = (Inl (name_error ''obj_address_map''),
              print (''Loading symbols for actor at  '' @ str_int alloc) s')"
    using assms(5,6) e2 g c by (simp add: AddOverlaySymbols_def Let_def)
  from z raises sends unbound line44 show ?thesis by blast
qed

theorem section_offsets_witness:
  "host_calls (snd (load_z64overlay_object daiku_host initial_session 0x80100000 0x80a00000))
     = host_calls initial_session
       @ [registration_cmd daiku_object
            (0x80100000 + (0x80a00000 - 0x80a00000)) (0x80100000 + (0x80a01000 - 0x80a00000))
            (0x80100000 + (0x80a01200 - 0x80a00000)) (0x80100000 + (0x80a01400 - 0x80a00000))]
   \<and> AddOverlaySymbols None daiku_host initial_session 0x80100000
     = (Inl (name_error ''get_section_address''),
        print ''Loading symbols for actor at  2148532224'' initial_session)
   \<and> AddOverlaySymbols (Some (get_section_address daiku_host)) daiku_host initial_session 0x80100000
     = (Inl (name_error ''obj_address_map''),
        print ''Loading symbols for actor at  2148532224'' initial_session)
   \<and> host_calls (snd (AddOverlaySymbols (Some (get_section_address daiku_host)) daiku_host
                        initial_session 0x80100000))
     = host_calls initial_session"
proof -
  let ?f = "\<lambda>sec. case sec of TEXT \<Rightarrow> 0x80a00000 | DATA \<Rightarrow> 0x80a01000
                     | RODATA \<Rightarrow> 0x80a01200 | BSS \<Rightarrow> (0x80a01400::int)"
  have a1: "(0x80100000::int) \<notin> fst ` set (loaded_z64overlay_objects initial_session)"
    by (simp add: initial_session_def)
  have a2: "get_sym_section daiku_host (SymAddr 0x80a00000) = Inr ''..ovl_En_Daiku''
         \<or> (\<exists>e. get_sym_section daiku_host (SymAddr 0x80a00000) = Inl e \<and> kind e = ValueError
                \<and> get_section_by_addr daiku_host 0x80a00000 = Inr ''..ovl_En_Daiku'')"
  proof -
    have "get_sym_section daiku_host (SymAddr 0x80a00000) = Inr ''..ovl_En_Daiku''"
      by code_simp
    then show ?thesis by blast
  qed
  have rp: "removeprefix ''..'' ''..ovl_En_Daiku'' = ''ovl_En_Daiku''" by code_simp
  have g: "get_section_address daiku_host ''ovl_En_Daiku'' ''Text'' = Inr 0x80a00000"
    "get_section_address daiku_host ''ovl_En_Daiku'' ''Data'' = Inr 0x80a01000"
    "get_section_address daiku_host ''ovl_En_Daiku'' ''RoData'' = Inr 0x80a01200"
    "get_section_address daiku_host ''ovl_En_Daiku'' ''Bss'' = Inr 0x80a01400"
    by code_simp+
  have a3: "\<forall>sec. get_section_address daiku_host (removeprefix ''..'' ''..ovl_En_Daiku'')
                     (linker_script_name sec) = Inr (?f sec)"
  proof
    fix sec
    show "get_section_address daiku_host (removeprefix ''..'' ''..ovl_En_Daiku'')
            (linker_script_name sec) = Inr (?f sec)"
      unfolding rp using g by (cases sec) simp_all
  qed
  have a4: "target_object_path daiku_host 0x80a00000 = Inr daiku_object" by code_simp
  have a5: "(0x80100000::int) \<noteq> 0" by simp
  have a6: "execute daiku_host ''info symbol vramStart'' = Inr daiku_info_symbol" by code_simp
  have a7: "''EnDaiku_Init'' = rstrip (fst (partition_str daiku_info_symbol '' ''))" by code_simp
  have a8: "execute daiku_host (''info sym '' @ ''EnDaiku_Init'') = Inr daiku_info_symbol"
    by code_simp
  have a9: "''ovl_En_Daiku''
      = rstrip (fst (partition_str (snd (snd (partition_str daiku_info_symbol ''section ..''))) '' ''))"
    by code_simp
  have a14: "symtab_filename daiku_host ''EnDaiku_Init''
               = Inr ''src/overlays/actors/ovl_En_Daiku/z_en_daiku.c''" by code_simp
  have si: "str_int 0x80100000 = ''2148532224''" by code_simp
  note inst = section_offsets[where h = daiku_host and s = initial_session
      and alloc_address = "0x80100000" and vram_address = "0x80a00000"
      and sec_name = "''..ovl_En_Daiku''" and ovl_addresses = ?f and obj = daiku_object
      and alloc = "0x80100000" and h' = daiku_host and sym_out = daiku_info_symbol
      and target_func_name = "''EnDaiku_Init''" and sec_out = daiku_info_symbol
      and ovl = "''ovl_En_Daiku''" and bound = "get_section_address daiku_host"
      and t = "0x80a00000" and d = "0x80a01000" and r = "0x80a01200" and b = "0x80a01400"
      and c = "''src/overlays/actors/ovl_En_Daiku/z_en_daiku.c''" and s' = initial_session
      and gsa = "Some (get_section_address daiku_host)"]
  from inst[OF a1 a2 a3 a4 a5 a6 a7 a8 a9 g a14]
  show ?thesis unfolding si by simp
qed

text \<open>
  C2. When \<open>alloc_address\<close> is a key of the registry, \<^verbatim>\<open>load_z64overlay_object\<close> raises
  \<^verbatim>\<open>Exception("Already loaded")\<close> and leaves the whole session as it was: the registry is
  unchanged and no command has been sent to the debugger. Consequently the registry keeps
  at most one entry for each load address: every operation of the script (load, unload,
  the command, the three breakpoint callbacks) preserves this.
\<close>

theorem load_already_loaded:
  "(alloc_address \<in> fst ` set (loaded_z64overlay_objects s) \<longrightarrow>
      load_z64overlay_object h s alloc_address vram_address
        = (Inl (raise_exc Exception [''Already loaded'']), s))
   \<and> (one_entry_per_address s \<longrightarrow>
        one_entry_per_address (snd (load_z64overlay_object h s alloc_address vram_address))
      \<and> one_entry_per_address (snd (unload_z64overlay_object h s alloc_address))
      \<and> one_entry_per_address (snd (LoadZ64OvlCmd_invoke h s arg))
      \<and> one_entry_per_address (snd (BreakpointOverlayLoad_stop h s))
      \<and> one_entry_per_address (snd (BreakpointFree_stop h s))
      \<and> one_entry_per_address (snd (BreakpointKaleidoFree_stop h s)))"
proof (intro conjI impI)
  assume "alloc_address \<in> fst ` set (loaded_z64overlay_objects s)"
  then show "load_z64overlay_object h s alloc_address vram_address
        = (Inl (raise_exc Exception [''Already loaded'']), s)"
    by (simp add: load_z64overlay_object_def)
next
  assume i: "one_entry_per_address s"
  show "one_entry_per_address (snd (load_z64overlay_object h s alloc_address vram_address))"
    using i by (rule load_z64overlay_object_one_entry)
  show "one_entry_per_address (snd (unload_z64overlay_object h s alloc_address))"
    using i by (rule unload_z64overlay_object_one_entry)
  show "one_entry_per_address (snd (LoadZ64OvlCmd_invoke h s arg))"
    using i LoadZ64OvlCmd_invoke_frame[of s h arg] by blast
  show "one_entry_per_address (snd (BreakpointOverlayLoad_stop h s))"
    using i by (simp add: BreakpointOverlayLoad_stop_def load_z64overlay_object_one_entry
          split: sum.splits)
  show "one_entry_per_address (snd (BreakpointFree_stop h s))"
    using i by (simp add: BreakpointFree_stop_def unload_z64overlay_object_one_entry
          split: sum.splits)
  show "one_entry_per_address (snd (BreakpointKaleidoFree_stop h s))"
    using i by (simp add: BreakpointKaleidoFree_stop_def unload_z64overlay_object_one_entry
          split: sum.splits)
qed

theorem load_already_loaded_witness:
  "(0x80100000::int) \<in> fst ` set (loaded_z64overlay_objects
        (snd (load_z64overlay_object daiku_host initial_session 0x80100000 0x80a00000)))
   \<and> load_z64overlay_object daiku_host
        (snd (load_z64overlay_object daiku_host initial_session 0x80100000 0x80a00000))
        0x80100000 0x80a00000
      = (Inl (raise_exc Exception [''Already loaded'']),
         snd (load_z64overlay_object daiku_host initial_session 0x80100000 0x80a00000))
   \<and> one_entry_per_address initial_session
   \<and> one_entry_per_address
        (snd (load_z64overlay_object daiku_host initial_session 0x80100000 0x80a00000))"
proof -
  let ?s = "snd (load_z64overlay_object daiku_host initial_session 0x80100000 0x80a00000)"
  have l: "loaded_z64overlay_objects ?s
             = [(0x80100000, ''/oot/build/src/overlays/actors/ovl_En_Daiku/z_en_daiku.o'')]"
    by code_simp
  then have m: "(0x80100000::int) \<in> fst ` set (loaded_z64overlay_objects ?s)" by simp
  have i: "one_entry_per_address initial_session"
    by (simp add: one_entry_per_address_def initial_session_def)
  from load_already_loaded[of "0x80100000" ?s daiku_host "0x80a00000" "''''"]
       load_already_loaded[of "0x80100000" initial_session daiku_host "0x80a00000" "''''"]
  show ?thesis using m i by blast
qed

text \<open>
  C3. When \<open>alloc_address\<close> is not a key of the registry, \<^verbatim>\<open>unload_z64overlay_object\<close>
  returns normally and leaves the whole session as it was (registry unchanged, no
  \<^verbatim>\<open>remove-symbol-file\<close> sent). When it is a key, with object file \<open>obj_p\<close>, the entry of
  that address is removed and every other entry is kept, and the one command
  \<^verbatim>\<open>remove-symbol-file obj_p\<close> is sent to the debugger.
\<close>

theorem unload_z64overlay_object_effect:
  "(alloc_address \<notin> fst ` set (loaded_z64overlay_objects s) \<longrightarrow>
      unload_z64overlay_object h s alloc_address = (Inr (), s))
   \<and> (map_of (loaded_z64overlay_objects s) alloc_address = Some obj_p \<longrightarrow>
        loaded_z64overlay_objects (snd (unload_z64overlay_object h s alloc_address))
          = filter (\<lambda>(k, p). k \<noteq> alloc_address) (loaded_z64overlay_objects s)
      \<and> map_of (loaded_z64overlay_objects (snd (unload_z64overlay_object h s alloc_address)))
          = (map_of (loaded_z64overlay_objects s))(alloc_address := None)
      \<and> host_calls (snd (unload_z64overlay_object h s alloc_address))
          = host_calls s @ [''remove-symbol-file '' @ obj_p]
      \<and> (one_entry_per_address s \<longrightarrow>
            length (loaded_z64overlay_objects (snd (unload_z64overlay_object h s alloc_address))) + 1
              = length (loaded_z64overlay_objects s)))"
proof (intro conjI impI)
  assume "alloc_address \<notin> fst ` set (loaded_z64overlay_objects s)"
  then have "map_of (loaded_z64overlay_objects s) alloc_address = None"
    by (simp add: map_of_eq_None_iff)
  then show "unload_z64overlay_object h s alloc_address = (Inr (), s)"
    by (simp add: unload_z64overlay_object_def)
next
  assume p: "map_of (loaded_z64overlay_objects s) alloc_address = Some obj_p"
  have l: "loaded_z64overlay_objects (snd (unload_z64overlay_object h s alloc_address))
             = AList.delete alloc_address (loaded_z64overlay_objects s)"
    using p by (simp add: unload_z64overlay_object_def Let_def split: sum.splits)
  show "loaded_z64overlay_objects (snd (unload_z64overlay_object h s alloc_address))
          = filter (\<lambda>(k, p). k \<noteq> alloc_address) (loaded_z64overlay_objects s)"
    unfolding l AList.delete_eq by (rule filter_cong) auto
  show "map_of (loaded_z64overlay_objects (snd (unload_z64overlay_object h s alloc_address)))
          = (map_of (loaded_z64overlay_objects s))(alloc_address := None)"
    unfolding l by (simp add: delete_conv')
  show "host_calls (snd (unload_z64overlay_object h s alloc_address))
          = host_calls s @ [''remove-symbol-file '' @ obj_p]"
    using p by (simp add: unload_z64overlay_object_def Let_def split: sum.splits)
  assume "one_entry_per_address s"
  then have d: "distinct (map fst (loaded_z64overlay_objects s))"
    by (simp add: one_entry_per_address_def)
  from p have "(alloc_address, obj_p) \<in> set (loaded_z64overlay_objects s)"
    by (rule map_of_SomeD)
  with d have "length (AList.delete alloc_address (loaded_z64overlay_objects s)) + 1
                 = length (loaded_z64overlay_objects s)"
  proof (induction "loaded_z64overlay_objects s" arbitrary: s)
    case Nil
    then show ?case by simp
  next
    case (Cons x xs)
    obtain k q where x: "x = (k, q)" by (cases x) auto
    define s' where "s' = s\<lparr>loaded_z64overlay_objects := xs\<rparr>"
    have xs: "xs = loaded_z64overlay_objects s'" by (simp add: s'_def)
    show ?case
    proof (cases "k = alloc_address")
      case True
      then have "alloc_address \<notin> fst ` set xs" using Cons(2,3) x by (metis distinct.simps(2) list.simps(9) fst_conv list.set_map)
      then have "AList.delete alloc_address xs = xs"
        by (auto simp: AList.delete_eq filter_id_conv image_iff)
      then show ?thesis using Cons(2)[symmetric] x True by simp
    next
      case False
      then have "(alloc_address, obj_p) \<in> set (loaded_z64overlay_objects s')"
        using Cons(2,4) x xs by (metis prod.inject set_ConsD)
      moreover have "distinct (map fst (loaded_z64overlay_objects s'))"
        using Cons(2,3) xs by (metis distinct.simps(2) list.simps(9))
      ultimately have "length (AList.delete alloc_address (loaded_z64overlay_objects s')) + 1
                         = length (loaded_z64overlay_objects s')"
        using Cons(1)[OF xs] by blast
      then show ?thesis using Cons(2)[symmetric] x False xs by simp
    qed
  qed
  then show "length (loaded_z64overlay_objects (snd (unload_z64overlay_object h s alloc_address))) + 1
              = length (loaded_z64overlay_objects s)"
    unfolding l .
qed

theorem unload_z64overlay_object_effect_witness:
  "(0x80100000::int) \<notin> fst ` set (loaded_z64overlay_objects initial_session)
   \<and> unload_z64overlay_object daiku_host initial_session 0x80100000 = (Inr (), initial_session)
   \<and> map_of (loaded_z64overlay_objects daiku_loaded_session) 0x80100000 = Some daiku_object
   \<and> one_entry_per_address daiku_loaded_session
   \<and> loaded_z64overlay_objects (snd (unload_z64overlay_object daiku_host daiku_loaded_session 0x80100000))
       = filter (\<lambda>(k, p). k \<noteq> 0x80100000) (loaded_z64overlay_objects daiku_loaded_session)
   \<and> host_calls (snd (unload_z64overlay_object daiku_host daiku_loaded_session 0x80100000))
       = host_calls daiku_loaded_session @ [''remove-symbol-file '' @ daiku_object]
   \<and> length (loaded_z64overlay_objects
         (snd (unload_z64overlay_object daiku_host daiku_loaded_session 0x80100000))) + 1
       = length (loaded_z64overlay_objects daiku_loaded_session)"
proof -
  have a: "(0x80100000::int) \<notin> fst ` set (loaded_z64overlay_objects initial_session)"
    by (simp add: initial_session_def)
  have l: "loaded_z64overlay_objects daiku_loaded_session = [(0x80100000, daiku_object)]"
    by code_simp
  have p: "map_of (loaded_z64overlay_objects daiku_loaded_session) 0x80100000 = Some daiku_object"
    unfolding l by simp
  have i: "one_entry_per_address daiku_loaded_session"
    unfolding one_entry_per_address_def l by simp
  from unload_z64overlay_object_effect[of "0x80100000" initial_session daiku_host daiku_object]
       unload_z64overlay_object_effect[of "0x80100000" daiku_loaded_session daiku_host daiku_object]
  show ?thesis using a p i by blast
qed

text \<open>
  C4. When \<^verbatim>\<open>info symbol\<close> answers
  \<^verbatim>\<open>Play_Init in section ..code of /path/to/rom.elf\<close>, or the same text without the
  \<^verbatim>\<open>of\<close> part, \<^verbatim>\<open>get_sym_section\<close> followed by the removal of the prefix \<^verbatim>\<open>..\<close>
  (as \<^verbatim>\<open>load_z64overlay_object\<close> does) gives the section name \<^verbatim>\<open>code\<close>.
\<close>

theorem get_sym_section_code:
  assumes "execute h (''info symbol '' @ sym_text sy)
             = Inr info_sym"
    and "info_sym = ''Play_Init in section ..code of /path/to/rom.elf''
           \<or> info_sym = ''Play_Init in section ..code''"
  shows "map_sum id (removeprefix ''..'') (get_sym_section h sy) = Inr ''code''"
  using assms
  by (auto simp: get_sym_section_def Let_def split_info_sym_long split_info_sym_short
        split_of_long split_of_short strip_code)

theorem get_sym_section_code_witness:
  "execute daiku_host (''info symbol '' @ sym_text (SymName ''Play_Init''))
      = Inr ''Play_Init in section ..code of /path/to/rom.elf''
   \<and> map_sum id (removeprefix ''..'') (get_sym_section daiku_host (SymName ''Play_Init'')) = Inr ''code''
   \<and> execute daiku_host (''info symbol '' @ sym_text (SymAddr 0x800c0000)) = Inr ''Play_Init in section ..code''
   \<and> map_sum id (removeprefix ''..'') (get_sym_section daiku_host (SymAddr 0x800c0000)) = Inr ''code''"
proof -
  have a: "execute daiku_host (''info symbol '' @ sym_text (SymName ''Play_Init''))
             = Inr ''Play_Init in section ..code of /path/to/rom.elf''"
    by code_simp
  have b: "execute daiku_host (''info symbol '' @ sym_text (SymAddr 0x800c0000))
             = Inr ''Play_Init in section ..code''"
    by code_simp
  from get_sym_section_code[OF a] get_sym_section_code[OF b] a b
  show ?thesis by simp
qed

text \<open>
  C5. When the output of \<^verbatim>\<open>info file\<close> contains the line
  \<^verbatim>\<open>0x00001060 - 0x00002000 is ..boot\<close> and no line before it lists a range that holds
  \<^verbatim>\<open>0x1500\<close> (the loop returns at the first line that does), \<^verbatim>\<open>get_section_by_addr\<close>
  maps \<^verbatim>\<open>0x1500\<close> to \<^verbatim>\<open>..boot\<close>. For an address outside the range of every line it
  raises \<^verbatim>\<open>ValueError\<close>.
\<close>

theorem get_section_by_addr_boot:
  assumes "execute h ''info file'' = Inr info_file"
  shows "(splitlines info_file = pre @ [''0x00001060 - 0x00002000 is ..boot''] @ post
            \<and> (\<forall>l\<in>set pre. \<not> line_holds l 0x1500)
          \<longrightarrow> get_section_by_addr h 0x1500 = Inr ''..boot'')
       \<and> ((\<forall>l\<in>set (splitlines info_file). \<not> line_holds l addr)
          \<longrightarrow> get_section_by_addr h addr
                = Inl (raise_exc ValueError [''No section found for address '' @ hex addr]))"
proof (intro conjI impI)
  assume a: "splitlines info_file = pre @ [''0x00001060 - 0x00002000 is ..boot''] @ post
               \<and> (\<forall>l\<in>set pre. \<not> line_holds l 0x1500)"
  then have "section_in_lines (splitlines info_file) 0x1500
               = section_in_lines (''0x00001060 - 0x00002000 is ..boot'' # post) 0x1500"
    using section_in_lines_skip[of pre "0x1500"] by simp
  also have "\<dots> = Inr ''..boot''"
    unfolding section_in_lines_Cons boot_line_range by simp
  finally show "get_section_by_addr h 0x1500 = Inr ''..boot''"
    using assms by (simp add: get_section_by_addr_def)
next
  assume "\<forall>l\<in>set (splitlines info_file). \<not> line_holds l addr"
  then have "section_in_lines (splitlines info_file @ []) addr = section_in_lines [] addr"
    by (rule section_in_lines_skip)
  then show "get_section_by_addr h addr
               = Inl (raise_exc ValueError [''No section found for address '' @ hex addr])"
    using assms by (simp add: get_section_by_addr_def)
qed

theorem get_section_by_addr_boot_witness:
  "execute daiku_host ''info file'' = Inr daiku_info_file
   \<and> splitlines daiku_info_file
       = [''Local exec file:'', ''0x00000000 - 0x00001060 is ..makerom'']
         @ [''0x00001060 - 0x00002000 is ..boot'']
         @ [''0xffffffff80000460 - 0xffffffff80010aa0 is ..code'']
   \<and> \<not> line_holds ''Local exec file:'' 0x1500
   \<and> \<not> line_holds ''0x00000000 - 0x00001060 is ..makerom'' 0x1500
   \<and> get_section_by_addr daiku_host 0x1500 = Inr ''..boot''
   \<and> list_all (\<lambda>l. \<not> line_holds l 0x2000) (splitlines daiku_info_file)
   \<and> get_section_by_addr daiku_host 0x2000
       = Inl (raise_exc ValueError [''No section found for address 0x2000''])"
proof -
  have e: "execute daiku_host ''info file'' = Inr daiku_info_file" by code_simp
  have l: "splitlines daiku_info_file
       = [''Local exec file:'', ''0x00000000 - 0x00001060 is ..makerom'']
         @ [''0x00001060 - 0x00002000 is ..boot'']
         @ [''0xffffffff80000460 - 0xffffffff80010aa0 is ..code'']" by code_simp
  have p1: "\<not> line_holds ''Local exec file:'' 0x1500" by code_simp
  have p2: "\<not> line_holds ''0x00000000 - 0x00001060 is ..makerom'' 0x1500" by code_simp
  have q: "list_all (\<lambda>l. \<not> line_holds l 0x2000) (splitlines daiku_info_file)" by code_simp
  have h: "hex 0x2000 = ''0x2000''" by code_simp
  from get_section_by_addr_boot[OF e,
         of "[''Local exec file:'', ''0x00000000 - 0x00001060 is ..makerom'']"
            "[''0xffffffff80000460 - 0xffffffff80010aa0 is ..code'']" "0x2000"]
  show ?thesis using e l p1 p2 q h by (simp add: list_all_iff)
qed

text \<open>
  C6 (as the code has it). Let the upper-cased argument (\<^verbatim>\<open>arg.upper()\<close>) be neither a sub-command
  (\<^verbatim>\<open>AUTO ON\<close>, \<^verbatim>\<open>AUTO OFF\<close>) nor an alias (\<^verbatim>\<open>PAUSE\<close>, \<^verbatim>\<open>KALEIDO\<close>,
  \<^verbatim>\<open>KALEIDO_SCOPE\<close>, \<^verbatim>\<open>ACTOR_PLAYER\<close>), and let its type, the text before the first
  underscore, be non-empty.
  \<^item> \<^verbatim>\<open>z64ovl\<close>: the type \<^verbatim>\<open>GAMESTATE\<close>, \<^verbatim>\<open>ACTOR\<close> or \<^verbatim>\<open>EFFECT\<close> selects
    \<^verbatim>\<open>gGameStateOverlayTable\<close>, \<^verbatim>\<open>gActorOverlayTable\<close> or \<^verbatim>\<open>gEffectSsOverlayTable\<close>,
    in which the overlay of the enum value is then loaded; any other type prints
    \<^verbatim>\<open>ERROR: Type of enum provided is not supported\<close> and returns with nothing loaded.
  \<^item> \<^verbatim>\<open>ovl\<close>: the enum name is resolved first, and a name that does not resolve ends
    the command with \<^verbatim>\<open>ERROR: Provided enum value could not be found in the elf\<close>; for
    a name that resolves the same three types select the same tables, and any other type
    raises \<^verbatim>\<open>Exception("Type of enum provided is not supported")\<close> with nothing loaded.
\<close>

theorem overlay_type_dispatch:
  assumes "str_upper h arg0 = arg"
    and "arg \<notin> set [''AUTO ON'', ''AUTO OFF'', ''PAUSE'', ''KALEIDO'', ''KALEIDO_SCOPE'',
                      ''ACTOR_PLAYER'']"
    and "takeWhile (\<lambda>c. c \<noteq> CHR ''_'') arg = ovl_type"
    and "ovl_type \<noteq> []"
  shows "LoadZ64OvlCmd_invoke h s arg0 =
           (if ovl_type \<in> set [''GAMESTATE'', ''ACTOR'', ''EFFECT''] then
              (case global_value h (overlay_table_symbol ovl_type) of
                 Inl e \<Rightarrow> (Inl e, s)
               | Inr table \<Rightarrow>
                   (case enum_value h arg of
                      Inl _ \<Rightarrow> (Inr (), print ''ERROR: Provided enum value could not be found in the elf'' s)
                    | Inr index \<Rightarrow> load_z64overlay_object_from_table h s table index))
            else (Inr (), print ''ERROR: Type of enum provided is not supported'' s))
       \<and> LoadOvlCmd_invoke gsa h s arg0 =
           (case enum_value h arg of
              Inl _ \<Rightarrow> (Inr (), print ''ERROR: Provided enum value could not be found in the elf'' s)
            | Inr index \<Rightarrow>
                if ovl_type \<in> set [''GAMESTATE'', ''ACTOR'', ''EFFECT''] then
                  (case global_value h (overlay_table_symbol ovl_type) of
                     Inl e \<Rightarrow> (Inl e, s)
                   | Inr table \<Rightarrow>
                       (case GetAllocAddress h table index of
                          Inl e \<Rightarrow> (Inl e, s)
                        | Inr a \<Rightarrow> AddOverlaySymbols gsa h s a))
                else (Inl (raise_exc Exception [''Type of enum provided is not supported'']), s))
       \<and> overlay_table_symbol ''GAMESTATE'' = ''gGameStateOverlayTable''
       \<and> overlay_table_symbol ''ACTOR'' = ''gActorOverlayTable''
       \<and> overlay_table_symbol ''EFFECT'' = ''gEffectSsOverlayTable''"
proof -
  have n: "arg \<notin> set [''PAUSE'', ''KALEIDO'', ''KALEIDO_SCOPE'', ''ACTOR_PLAYER'']"
    using assms(2) by simp
  show ?thesis
    using LoadZ64OvlCmd_invoke_dispatch[OF assms, where s = s]
      LoadOvlCmd_invoke_dispatch[OF assms(1) n assms(3,4), where gsa = gsa and s = s]
    by (simp add: overlay_table_symbol_def)
qed

theorem overlay_type_dispatch_witness:
  "LoadZ64OvlCmd_invoke daiku_host initial_session ''ACTOR_EN_DAIKU''
     = load_z64overlay_object_from_table daiku_host initial_session ''gActorOverlayTable'' 5
   \<and> LoadZ64OvlCmd_invoke daiku_host initial_session ''GAMESTATE_MAP_SELECT''
     = load_z64overlay_object_from_table daiku_host initial_session ''gGameStateOverlayTable'' 2
   \<and> LoadZ64OvlCmd_invoke daiku_host initial_session ''FOO_BAR''
     = (Inr (), print ''ERROR: Type of enum provided is not supported'' initial_session)
   \<and> LoadOvlCmd_invoke (Some (get_section_address foo_host)) foo_host initial_session ''FOO_BAR''
     = (Inl (raise_exc Exception [''Type of enum provided is not supported'']), initial_session)"
proof -
  have u: "str_upper daiku_host ''ACTOR_EN_DAIKU'' = ''ACTOR_EN_DAIKU''"
    "str_upper daiku_host ''GAMESTATE_MAP_SELECT'' = ''GAMESTATE_MAP_SELECT''"
    "str_upper daiku_host ''FOO_BAR'' = ''FOO_BAR''"
    "str_upper foo_host ''FOO_BAR'' = ''FOO_BAR''"
    by code_simp+
  have n: "''ACTOR_EN_DAIKU'' \<notin> set [''AUTO ON'', ''AUTO OFF'', ''PAUSE'', ''KALEIDO'',
                      ''KALEIDO_SCOPE'', ''ACTOR_PLAYER'']"
    "''GAMESTATE_MAP_SELECT'' \<notin> set [''AUTO ON'', ''AUTO OFF'', ''PAUSE'', ''KALEIDO'',
                      ''KALEIDO_SCOPE'', ''ACTOR_PLAYER'']"
    "''FOO_BAR'' \<notin> set [''AUTO ON'', ''AUTO OFF'', ''PAUSE'', ''KALEIDO'',
                      ''KALEIDO_SCOPE'', ''ACTOR_PLAYER'']"
    by simp_all
  have t: "takeWhile (\<lambda>c. c \<noteq> CHR ''_'') ''ACTOR_EN_DAIKU'' = ''ACTOR''"
    "takeWhile (\<lambda>c. c \<noteq> CHR ''_'') ''GAMESTATE_MAP_SELECT'' = ''GAMESTATE''"
    "takeWhile (\<lambda>c. c \<noteq> CHR ''_'') ''FOO_BAR'' = ''FOO''"
    by simp_all
  have e: "''ACTOR'' \<noteq> []" "''GAMESTATE'' \<noteq> []" "''FOO'' \<noteq> []" by simp_all
  have g: "global_value daiku_host ''gActorOverlayTable'' = Inr ''gActorOverlayTable''"
    "global_value daiku_host ''gGameStateOverlayTable'' = Inr ''gGameStateOverlayTable''"
    "enum_value daiku_host ''ACTOR_EN_DAIKU'' = Inr 5"
    "enum_value daiku_host ''GAMESTATE_MAP_SELECT'' = Inr 2"
    "enum_value foo_host ''FOO_BAR'' = Inr 7"
    by code_simp+
  from overlay_type_dispatch[OF u(1) n(1) t(1) e(1), where s = initial_session]
       overlay_type_dispatch[OF u(2) n(2) t(2) e(2), where s = initial_session]
       overlay_type_dispatch[OF u(3) n(3) t(3) e(3), where s = initial_session]
       overlay_type_dispatch[OF u(4) n(3) t(3) e(3), where s = initial_session
         and gsa = "Some (get_section_address foo_host)"]
  show ?thesis using g by simp
qed

text \<open>
  As the claim states it, \<^verbatim>\<open>FOO_BAR\<close> would produce an unsupported-type error. With
  \<^verbatim>\<open>ovl\<close>, in a program that has no symbol \<^verbatim>\<open>FOO_BAR\<close>, the command ends on the enum
  lookup: the outcome is no error, and the line printed is not the unsupported-type one.
\<close>

theorem ovl_foo_bar_not_unsupported_type:
  "LoadOvlCmd_invoke None daiku_host initial_session ''FOO_BAR''
     = (Inr (), print ''ERROR: Provided enum value could not be found in the elf'' initial_session)
   \<and> LoadOvlCmd_invoke (Some (get_section_address daiku_host)) daiku_host initial_session ''FOO_BAR''
     = (Inr (), print ''ERROR: Provided enum value could not be found in the elf'' initial_session)
   \<and> fst (LoadOvlCmd_invoke None daiku_host initial_session ''FOO_BAR'')
       \<noteq> Inl (raise_exc Exception [''Type of enum provided is not supported''])
   \<and> ''ERROR: Type of enum provided is not supported''
       \<notin> set (printed (snd (LoadOvlCmd_invoke None daiku_host initial_session ''FOO_BAR'')))"
  by code_simp

text \<open>
  C7 (as the code has it). For an overlay name and each of the four section kinds
  (\<^verbatim>\<open>Text\<close>, \<^verbatim>\<open>Data\<close>, \<^verbatim>\<open>RoData\<close>, \<^verbatim>\<open>Bss\<close>), \<^verbatim>\<open>get_section_address\<close> resolves the
  linker symbol named \<^verbatim>\<open>_<overlay>Segment<SectionKind>Start\<close>: when the debugger prints
  the address of that symbol, this address is returned, and an address is returned in
  no other case. Whenever \<^verbatim>\<open>get_section_address\<close> raises, the error carries the note
  \<^verbatim>\<open>section_start_name=\<close> followed by the \<^verbatim>\<open>repr\<close> of that symbol name.
\<close>

theorem get_section_address_symbol:
  "linker_script_name sec \<in> set [''Text'', ''Data'', ''RoData'', ''Bss'']
   \<and> (execute h (printf_cmd (''_'' @ ovl_name @ ''Segment'' @ sec_kind @ ''Start'')) = Inr out
        \<and> int_base16 out = Some a
      \<longrightarrow> get_section_address h ovl_name sec_kind = Inr a)
   \<and> (get_section_address h ovl_name sec_kind = Inr a
      \<longrightarrow> (\<exists>out. execute h (printf_cmd (''_'' @ ovl_name @ ''Segment'' @ sec_kind @ ''Start'')) = Inr out
                 \<and> int_base16 out = Some a))
   \<and> (get_section_address h ovl_name sec_kind = Inl e
      \<longrightarrow> (''section_start_name='' @ repr (''_'' @ ovl_name @ ''Segment'' @ sec_kind @ ''Start''))
            \<in> set (exc_notes e))"
proof (intro conjI impI)
  show "linker_script_name sec \<in> set [''Text'', ''Data'', ''RoData'', ''Bss'']"
    by (cases sec) simp_all
next
  assume "execute h (printf_cmd (''_'' @ ovl_name @ ''Segment'' @ sec_kind @ ''Start'')) = Inr out
        \<and> int_base16 out = Some a"
  then show "get_section_address h ovl_name sec_kind = Inr a"
    by (simp add: get_section_address_def get_sym_addr_from_name_def section_start_name_def)
next
  assume "get_section_address h ovl_name sec_kind = Inr a"
  then show "\<exists>out. execute h (printf_cmd (''_'' @ ovl_name @ ''Segment'' @ sec_kind @ ''Start'')) = Inr out
                 \<and> int_base16 out = Some a"
    by (auto simp: get_section_address_def get_sym_addr_from_name_def section_start_name_def
          split: sum.splits option.splits)
next
  assume "get_section_address h ovl_name sec_kind = Inl e"
  then show "(''section_start_name='' @ repr (''_'' @ ovl_name @ ''Segment'' @ sec_kind @ ''Start''))
            \<in> set (exc_notes e)"
    by (auto simp: get_section_address_def section_start_name_def add_note_def
          split: sum.splits)
qed

theorem get_section_address_symbol_witness:
  "execute daiku_host (printf_cmd (''_'' @ ''ovl_En_Daiku'' @ ''Segment'' @ ''RoData'' @ ''Start''))
      = Inr ''80a01200''
   \<and> int_base16 ''80a01200'' = Some 0x80a01200
   \<and> get_section_address daiku_host ''ovl_En_Daiku'' ''RoData'' = Inr 0x80a01200
   \<and> get_section_address daiku_host ''ovl_En_Kusa'' ''Bss''
       = Inl (add_note (''section_start_name='' @ repr ''_ovl_En_KusaSegmentBssStart'') gdb_error)
   \<and> (''section_start_name='' @ repr (''_'' @ ''ovl_En_Kusa'' @ ''Segment'' @ ''Bss'' @ ''Start''))
        \<in> set (exc_notes (add_note (''section_start_name='' @ repr ''_ovl_En_KusaSegmentBssStart'')
                             gdb_error))"
proof -
  have x: "execute daiku_host (printf_cmd (''_'' @ ''ovl_En_Daiku'' @ ''Segment'' @ ''RoData'' @ ''Start''))
      = Inr ''80a01200''" by code_simp
  have i: "int_base16 ''80a01200'' = Some 0x80a01200" by code_simp
  have k: "get_section_address daiku_host ''ovl_En_Kusa'' ''Bss''
       = Inl (add_note (''section_start_name='' @ repr ''_ovl_En_KusaSegmentBssStart'') gdb_error)"
    by code_simp
  from get_section_address_symbol[where h = daiku_host and ovl_name = "''ovl_En_Daiku''"
         and sec_kind = "''RoData''" and out = "''80a01200''" and a = "0x80a01200"]
       get_section_address_symbol[where h = daiku_host and ovl_name = "''ovl_En_Kusa''"
         and sec_kind = "''Bss''"
         and e = "add_note (''section_start_name='' @ repr ''_ovl_En_KusaSegmentBssStart'') gdb_error"]
  show ?thesis using x i k by blast
qed

text \<open>
  As the claim states it, the symbol would be \<^verbatim>\<open>_<overlay><SectionKind>Start\<close>. In a
  debugger that knows \<^verbatim>\<open>_ovl_En_DaikuTextStart\<close> at \<^verbatim>\<open>0x80a00000\<close> and no other symbol,
  \<^verbatim>\<open>get_section_address("ovl_En_Daiku", "Text")\<close> does not return that address: it raises,
  and its note names \<^verbatim>\<open>_ovl_En_DaikuSegmentTextStart\<close>.
\<close>

theorem get_section_address_not_plain_name:
  "get_sym_addr_from_name plain_host (''_'' @ ''ovl_En_Daiku'' @ ''Text'' @ ''Start'') = Inr 0x80a00000
   \<and> get_section_address plain_host ''ovl_En_Daiku'' ''Text'' \<noteq> Inr 0x80a00000
   \<and> get_section_address plain_host ''ovl_En_Daiku'' ''Text''
       = Inl (add_note (''section_start_name='' @ [CHR 0x27] @ ''_ovl_En_DaikuSegmentTextStart''
                          @ [CHR 0x27]) gdb_error)"
  by code_simp

text \<open>
  C8 (as the code has it). The following commands end with one diagnostic line printed and
  nothing else changed (the registry, the breakpoint flag and the commands sent to the
  debugger are as before; in particular no \<^verbatim>\<open>add-symbol-file\<close> is sent):
  \<^item> a load from a table whose descriptor has \<^verbatim>\<open>loadedRamAddr\<close> equal to 0, in
    \<^verbatim>\<open>load_z64overlay_object_from_table\<close> and in \<^verbatim>\<open>AddOverlaySymbols\<close>;
  \<^item> \<^verbatim>\<open>z64ovl\<close> with a non-empty type that is none of the three known ones;
  \<^item> \<^verbatim>\<open>z64ovl\<close> with a known type whose table resolves and an enum name that does not;
  \<^item> \<^verbatim>\<open>ovl\<close> with an enum name that does not resolve.

  \<^verbatim>\<open>ovl\<close> with an enum name that resolves and a non-empty type that is none of the three
  known ones prints nothing: it raises
  \<^verbatim>\<open>Exception("Type of enum provided is not supported")\<close>, the session unchanged.
\<close>

theorem diagnostics_without_side_effects:
  assumes "str_upper h arg0 = arg"
    and "arg \<notin> set [''AUTO ON'', ''AUTO OFF'', ''PAUSE'', ''KALEIDO'', ''KALEIDO_SCOPE'',
                      ''ACTOR_PLAYER'']"
    and "takeWhile (\<lambda>c. c \<noteq> CHR ''_'') arg = ovl_type"
  shows "(table_u32 h table index ''loadedRamAddr'' = Inr 0 \<longrightarrow>
            load_z64overlay_object_from_table h s table index
              = (Inr (), print ''ERROR: Requested overlay is not currently loaded'' s))
       \<and> AddOverlaySymbols gsa h s 0
            = (Inr (), print ''ERROR: Requested overlay is not currently loaded'' s)
       \<and> (ovl_type \<noteq> [] \<and> ovl_type \<notin> set [''GAMESTATE'', ''ACTOR'', ''EFFECT''] \<longrightarrow>
            LoadZ64OvlCmd_invoke h s arg0
              = (Inr (), print ''ERROR: Type of enum provided is not supported'' s))
       \<and> (ovl_type \<in> set [''GAMESTATE'', ''ACTOR'', ''EFFECT'']
            \<and> global_value h (overlay_table_symbol ovl_type) = Inr table
            \<and> enum_value h arg = Inl e \<longrightarrow>
            LoadZ64OvlCmd_invoke h s arg0
              = (Inr (), print ''ERROR: Provided enum value could not be found in the elf'' s))
       \<and> (enum_value h arg = Inl e \<longrightarrow>
            LoadOvlCmd_invoke gsa h s arg0
              = (Inr (), print ''ERROR: Provided enum value could not be found in the elf'' s))
       \<and> (enum_value h arg = Inr index
            \<and> ovl_type \<noteq> [] \<and> ovl_type \<notin> set [''GAMESTATE'', ''ACTOR'', ''EFFECT''] \<longrightarrow>
            LoadOvlCmd_invoke gsa h s arg0
              = (Inl (raise_exc Exception [''Type of enum provided is not supported'']), s))
       \<and> print line s = s\<lparr>printed := printed s @ [line]\<rparr>"
proof -
  have n: "arg \<notin> set [''PAUSE'', ''KALEIDO'', ''KALEIDO_SCOPE'', ''ACTOR_PLAYER'']"
    using assms(2) by simp
  have ne: "ovl_type \<noteq> []" if "ovl_type \<in> set [''GAMESTATE'', ''ACTOR'', ''EFFECT'']"
    using that by auto
  have 1: "load_z64overlay_object_from_table h s table index
              = (Inr (), print ''ERROR: Requested overlay is not currently loaded'' s)"
    if "table_u32 h table index ''loadedRamAddr'' = Inr 0"
    using that by (simp add: load_z64overlay_object_from_table_def)
  have 2: "AddOverlaySymbols gsa h s 0
            = (Inr (), print ''ERROR: Requested overlay is not currently loaded'' s)"
    by (simp add: AddOverlaySymbols_def)
  have 3: "LoadZ64OvlCmd_invoke h s arg0
              = (Inr (), print ''ERROR: Type of enum provided is not supported'' s)"
    if "ovl_type \<noteq> [] \<and> ovl_type \<notin> set [''GAMESTATE'', ''ACTOR'', ''EFFECT'']"
    using that LoadZ64OvlCmd_invoke_dispatch[OF assms(1,2,3), where s = s] by simp
  have 4: "LoadZ64OvlCmd_invoke h s arg0
              = (Inr (), print ''ERROR: Provided enum value could not be found in the elf'' s)"
    if "ovl_type \<in> set [''GAMESTATE'', ''ACTOR'', ''EFFECT'']
            \<and> global_value h (overlay_table_symbol ovl_type) = Inr table
            \<and> enum_value h arg = Inl e"
    using that ne LoadZ64OvlCmd_invoke_dispatch[OF assms(1,2,3), where s = s] by simp
  have 5: "LoadOvlCmd_invoke gsa h s arg0
              = (Inr (), print ''ERROR: Provided enum value could not be found in the elf'' s)"
    if "enum_value h arg = Inl e"
    using that unfolding LoadOvlCmd_invoke_other[OF assms(1) n] by simp
  have 6: "LoadOvlCmd_invoke gsa h s arg0
              = (Inl (raise_exc Exception [''Type of enum provided is not supported'']), s)"
    if "enum_value h arg = Inr index
            \<and> ovl_type \<noteq> [] \<and> ovl_type \<notin> set [''GAMESTATE'', ''ACTOR'', ''EFFECT'']"
    using that LoadOvlCmd_invoke_dispatch[OF assms(1) n assms(3), where gsa = gsa and s = s] by simp
  have 7: "print line s = s\<lparr>printed := printed s @ [line]\<rparr>"
    by (simp add: print_def)
  from 1 2 3 4 5 6 7 show ?thesis by blast
qed

theorem diagnostics_without_side_effects_witness:
  "table_u32 daiku_host ''gActorOverlayTable'' 3 ''loadedRamAddr'' = Inr 0
   \<and> load_z64overlay_object_from_table daiku_host daiku_loaded_session ''gActorOverlayTable'' 3
       = (Inr (), print ''ERROR: Requested overlay is not currently loaded'' daiku_loaded_session)
   \<and> AddOverlaySymbols (Some (get_section_address daiku_host)) daiku_host daiku_loaded_session 0
       = (Inr (), print ''ERROR: Requested overlay is not currently loaded'' daiku_loaded_session)
   \<and> LoadZ64OvlCmd_invoke daiku_host daiku_loaded_session ''foo_bar''
       = (Inr (), print ''ERROR: Type of enum provided is not supported'' daiku_loaded_session)
   \<and> LoadZ64OvlCmd_invoke daiku_host daiku_loaded_session ''Actor_En_Kusa''
       = (Inr (), print ''ERROR: Provided enum value could not be found in the elf''
                    daiku_loaded_session)
   \<and> LoadOvlCmd_invoke (Some (get_section_address daiku_host)) daiku_host daiku_loaded_session ''foo_bar''
       = (Inr (), print ''ERROR: Provided enum value could not be found in the elf''
                    daiku_loaded_session)
   \<and> LoadOvlCmd_invoke (Some (get_section_address foo_host)) foo_host daiku_loaded_session ''foo_bar''
       = (Inl (raise_exc Exception [''Type of enum provided is not supported'']),
          daiku_loaded_session)"
proof -
  have u: "str_upper daiku_host ''foo_bar'' = ''FOO_BAR''"
    "str_upper daiku_host ''Actor_En_Kusa'' = ''ACTOR_EN_KUSA''"
    "str_upper foo_host ''foo_bar'' = ''FOO_BAR''"
    by code_simp+
  have n: "''FOO_BAR'' \<notin> set [''AUTO ON'', ''AUTO OFF'', ''PAUSE'', ''KALEIDO'',
                      ''KALEIDO_SCOPE'', ''ACTOR_PLAYER'']"
    "''ACTOR_EN_KUSA'' \<notin> set [''AUTO ON'', ''AUTO OFF'', ''PAUSE'', ''KALEIDO'',
                      ''KALEIDO_SCOPE'', ''ACTOR_PLAYER'']"
    by simp_all
  have t: "takeWhile (\<lambda>c. c \<noteq> CHR ''_'') ''FOO_BAR'' = ''FOO''"
    "takeWhile (\<lambda>c. c \<noteq> CHR ''_'') ''ACTOR_EN_KUSA'' = ''ACTOR''"
    by simp_all
  have z: "table_u32 daiku_host ''gActorOverlayTable'' 3 ''loadedRamAddr'' = Inr 0"
    by code_simp
  have g: "global_value daiku_host (overlay_table_symbol ''ACTOR'') = Inr ''gActorOverlayTable''"
    "enum_value daiku_host ''ACTOR_EN_KUSA'' = Inl gdb_error"
    "enum_value daiku_host ''FOO_BAR'' = Inl gdb_error"
    "enum_value foo_host ''FOO_BAR'' = Inr 7"
    by code_simp+
  have f: "''FOO'' \<noteq> [] \<and> ''FOO'' \<notin> set [''GAMESTATE'', ''ACTOR'', ''EFFECT'']"
    "''ACTOR'' \<in> set [''GAMESTATE'', ''ACTOR'', ''EFFECT'']"
    by simp_all
  from diagnostics_without_side_effects[OF u(1) n(1) t(1),
         where s = daiku_loaded_session and table = "''gActorOverlayTable''" and index = 3
         and gsa = "Some (get_section_address daiku_host)" and e = gdb_error]
       diagnostics_without_side_effects[OF u(2) n(2) t(2),
         where s = daiku_loaded_session and table = "''gActorOverlayTable''" and e = gdb_error]
       diagnostics_without_side_effects[OF u(3) n(1) t(1),
         where s = daiku_loaded_session and index = 7
         and gsa = "Some (get_section_address foo_host)"]
  show ?thesis using z g f by blast
qed

text \<open>
  As the claim states it, a command with an unsupported type prefix would print a
  diagnostic. With \<^verbatim>\<open>ovl\<close>, in a program where \<^verbatim>\<open>FOO_BAR\<close> is an enum constant, the
  command raises instead and prints no line.
\<close>

theorem ovl_unsupported_type_raises:
  "LoadOvlCmd_invoke None foo_host initial_session ''FOO_BAR''
     = (Inl (raise_exc Exception [''Type of enum provided is not supported'']), initial_session)
   \<and> LoadOvlCmd_invoke (Some (get_section_address foo_host)) foo_host initial_session ''FOO_BAR''
     = (Inl (raise_exc Exception [''Type of enum provided is not supported'']), initial_session)
   \<and> printed (snd (LoadOvlCmd_invoke None foo_host initial_session ''FOO_BAR'')) = []"
  by code_simp

text \<open>
  C9. Whatever either script sends to the debugger while loading (through
  \<^verbatim>\<open>load_z64overlay_object\<close>, the command \<^verbatim>\<open>z64ovl\<close>, the load breakpoint,
  \<^verbatim>\<open>AddOverlaySymbols\<close> or the command \<^verbatim>\<open>ovl\<close>) is nothing or one
  \<^verbatim>\<open>add-symbol-file\<close> command with \<^verbatim>\<open>-readnow\<close>, the base \<^verbatim>\<open>-o 0xFF000000\<close> and the
  four \<^verbatim>\<open>-s\<close> section offsets (\<^verbatim>\<open>AddOverlaySymbols\<close> and \<^verbatim>\<open>ovl\<close> send nothing:
  they stop at an undefined name before their command). The sub-commands \<^verbatim>\<open>AUTO ON\<close> and \<^verbatim>\<open>AUTO OFF\<close> (in any
  letter case) set the \<^verbatim>\<open>enabled\<close> flag of the load breakpoint and print one line; the
  registry is unchanged and nothing is sent to the debugger.
\<close>

theorem registration_eager_and_auto_toggle:
  "registration_only s (snd (load_z64overlay_object h s alloc_address vram_address))
   \<and> registration_only s (snd (LoadZ64OvlCmd_invoke h s arg))
   \<and> registration_only s (snd (BreakpointOverlayLoad_stop h s))
   \<and> registration_only s (snd (AddOverlaySymbols gsa h s alloc_address))
   \<and> registration_only s (snd (LoadOvlCmd_invoke gsa h s arg))
   \<and> (str_upper h arg = ''AUTO ON'' \<longrightarrow>
        LoadZ64OvlCmd_invoke h s arg
          = (Inr (), s\<lparr>bp_load_enabled := True,
                        printed := printed s @ [''z64 overlays will be automatically loaded'']\<rparr>))
   \<and> (str_upper h arg = ''AUTO OFF'' \<longrightarrow>
        LoadZ64OvlCmd_invoke h s arg
          = (Inr (), s\<lparr>bp_load_enabled := False,
                        printed := printed s @ [''z64 overlays will NOT be automatically loaded'']\<rparr>))"
proof (intro conjI impI)
  show "registration_only s (snd (load_z64overlay_object h s alloc_address vram_address))"
    by (rule load_z64overlay_object_registration)
  show "registration_only s (snd (LoadZ64OvlCmd_invoke h s arg))"
    using LoadZ64OvlCmd_invoke_frame[of s h arg] by blast
  show "registration_only s (snd (BreakpointOverlayLoad_stop h s))"
    by (rule BreakpointOverlayLoad_stop_registration)
  show "registration_only s (snd (AddOverlaySymbols gsa h s alloc_address))"
    by (rule AddOverlaySymbols_registration)
  show "registration_only s (snd (LoadOvlCmd_invoke gsa h s arg))"
    by (rule LoadOvlCmd_invoke_registration)
next
  assume a: "str_upper h arg = ''AUTO ON''"
  show "LoadZ64OvlCmd_invoke h s arg
          = (Inr (), s\<lparr>bp_load_enabled := True,
                        printed := printed s @ [''z64 overlays will be automatically loaded'']\<rparr>)"
    unfolding LoadZ64OvlCmd_invoke_def Let_def a by (simp add: print_def)
next
  assume a: "str_upper h arg = ''AUTO OFF''"
  show "LoadZ64OvlCmd_invoke h s arg
          = (Inr (), s\<lparr>bp_load_enabled := False,
                        printed := printed s @ [''z64 overlays will NOT be automatically loaded'']\<rparr>)"
    unfolding LoadZ64OvlCmd_invoke_def Let_def a by (simp add: print_def)
qed

theorem registration_eager_and_auto_toggle_witness:
  "host_calls daiku_loaded_session
     = host_calls initial_session
       @ [registration_cmd daiku_object 0x80100000 0x80101000 0x80101200 0x80101400]
   \<and> registration_only initial_session daiku_loaded_session
   \<and> str_upper daiku_host ''auto on'' = ''AUTO ON''
   \<and> LoadZ64OvlCmd_invoke daiku_host daiku_loaded_session ''auto on''
       = (Inr (), daiku_loaded_session\<lparr>bp_load_enabled := True,
             printed := printed daiku_loaded_session
                          @ [''z64 overlays will be automatically loaded'']\<rparr>)"
proof -
  have c: "host_calls daiku_loaded_session
     = host_calls initial_session
       @ [registration_cmd daiku_object 0x80100000 0x80101000 0x80101200 0x80101400]"
    by code_simp
  have u: "str_upper daiku_host ''auto on'' = ''AUTO ON''" by code_simp
  from registration_eager_and_auto_toggle[where s = initial_session and h = daiku_host
         and alloc_address = "0x80100000" and vram_address = "0x80a00000" and arg = "''auto on''"]
       registration_eager_and_auto_toggle[where s = daiku_loaded_session and h = daiku_host
         and alloc_address = "0x80100000" and vram_address = "0x80a00000" and arg = "''auto on''"]
  show ?thesis using c u unfolding daiku_loaded_session_def by blast
qed

text \<open>
  C10. In \<^verbatim>\<open>get_section_by_addr\<close> the two bounds of a line are reduced to their low 32
  bits before the test, which is \<open>start \<le> addr < end\<close>: on a first line whose pattern
  groups read as \<open>x\<close> and \<open>y\<close> the section is returned exactly when
  \<open>x mod 2^32 \<le> addr < y mod 2^32\<close>, and otherwise the loop goes on with the next line.
  So the line \<^verbatim>\<open>0xffffffff80000460 - 0xffffffff80010aa0 is ..boot\<close> matches the address
  \<^verbatim>\<open>0x80000500\<close>, and does not match its end bound \<^verbatim>\<open>0x80010aa0\<close>.
\<close>

theorem get_section_by_addr_low32_half_open:
  assumes "execute h ''info file'' = Inr info_file"
    and "splitlines info_file = line # rest"
    and "INFO_FILE_LINE_PATTERN line = Some (start_str, end_str, section)"
    and "int_base16 start_str = Some x"
    and "int_base16 end_str = Some y"
  shows "get_section_by_addr h addr
           = (if x mod 2 ^ 32 \<le> addr \<and> addr < y mod 2 ^ 32 then Inr section
              else section_in_lines rest addr)
       \<and> get_section_by_addr h (y mod 2 ^ 32) = section_in_lines rest (y mod 2 ^ 32)
       \<and> (line = ''0xffffffff80000460 - 0xffffffff80010aa0 is ..boot'' \<longrightarrow>
            get_section_by_addr h 0x80000500 = Inr ''..boot''
            \<and> get_section_by_addr h 0x80010aa0 = section_in_lines rest 0x80010aa0)"
proof -
  have lr: "line_range line = Some (x mod 2 ^ 32, y mod 2 ^ 32, section)"
    using assms(3-5) by (simp add: line_range_def and32)
  have g: "\<And>addr. get_section_by_addr h addr
           = (if x mod 2 ^ 32 \<le> addr \<and> addr < y mod 2 ^ 32 then Inr section
              else section_in_lines rest addr)"
    using assms(1,2) lr
    by (simp add: get_section_by_addr_def section_in_lines_Cons del: section_in_lines.simps)
  have e: "get_section_by_addr h (y mod 2 ^ 32) = section_in_lines rest (y mod 2 ^ 32)"
    by (simp add: g)
  have c: "get_section_by_addr h 0x80000500 = Inr ''..boot''
           \<and> get_section_by_addr h 0x80010aa0 = section_in_lines rest 0x80010aa0"
    if "line = ''0xffffffff80000460 - 0xffffffff80010aa0 is ..boot''"
  proof -
    from that have "line_range line = Some (0x80000460, 0x80010aa0, ''..boot'')"
      by (simp add: code_line_range)
    then show ?thesis
      using assms(1,2)
      by (simp add: get_section_by_addr_def section_in_lines_Cons del: section_in_lines.simps)
  qed
  from g e c show ?thesis by blast
qed

theorem get_section_by_addr_low32_half_open_witness:
  "execute sign_extended_host ''info file'' = Inr sign_extended_info_file
   \<and> splitlines sign_extended_info_file
       = ''0xffffffff80000460 - 0xffffffff80010aa0 is ..boot''
         # [''0xffffffff80010aa0 - 0xffffffff800155b0 is ..boot.bss'']
   \<and> INFO_FILE_LINE_PATTERN ''0xffffffff80000460 - 0xffffffff80010aa0 is ..boot''
       = Some (''0xffffffff80000460'', ''0xffffffff80010aa0'', ''..boot'')
   \<and> int_base16 ''0xffffffff80000460'' = Some 0xffffffff80000460
   \<and> int_base16 ''0xffffffff80010aa0'' = Some 0xffffffff80010aa0
   \<and> get_section_by_addr sign_extended_host 0x80000500 = Inr ''..boot''
   \<and> get_section_by_addr sign_extended_host 0x80010aa0 = Inr ''..boot.bss''"
proof -
  have e: "execute sign_extended_host ''info file'' = Inr sign_extended_info_file"
    by code_simp
  have l: "splitlines sign_extended_info_file
       = ''0xffffffff80000460 - 0xffffffff80010aa0 is ..boot''
         # [''0xffffffff80010aa0 - 0xffffffff800155b0 is ..boot.bss'']" by code_simp
  have p: "INFO_FILE_LINE_PATTERN ''0xffffffff80000460 - 0xffffffff80010aa0 is ..boot''
       = Some (''0xffffffff80000460'', ''0xffffffff80010aa0'', ''..boot'')" by code_simp
  have x: "int_base16 ''0xffffffff80000460'' = Some 0xffffffff80000460" by code_simp
  have y: "int_base16 ''0xffffffff80010aa0'' = Some 0xffffffff80010aa0" by code_simp
  have r: "section_in_lines [''0xffffffff80010aa0 - 0xffffffff800155b0 is ..boot.bss''] 0x80010aa0
             = Inr ''..boot.bss''" by code_simp
  from get_section_by_addr_low32_half_open[OF e l p x y, of "0x80000500"]
  have "get_section_by_addr sign_extended_host 0x80000500 = Inr ''..boot''"
    and "get_section_by_addr sign_extended_host 0x80010aa0
           = section_in_lines [''0xffffffff80010aa0 - 0xffffffff800155b0 is ..boot.bss''] 0x80010aa0"
    by simp_all
  then show ?thesis using e l p x y r by simp
qed

end
